theory Spec2Isabelle
  imports Main "HOL-Library.Word"
begin

unbundle bit_operations_syntax

chapter \<open>The target bootstrap and address-translation layer of libdrgn (program.c)\<close>

text \<open>
  A shallow embedding of \<^verbatim>\<open>src/libdrgn/program.c\<close>. Byte buffers are \<open>string\<close>s
  (lists of 8-bit \<open>char\<close>s), \<^verbatim>\<open>uint64_t\<close> is \<open>64 word\<close> with its wrap-around,
  \<^verbatim>\<open>size_t\<close> counts that cannot wrap in practice are \<open>nat\<close>. A function returning
  \<^verbatim>\<open>struct drgn_error *\<close> returns a \<open>drgn_error option\<close> (\<open>None\<close> is \<^verbatim>\<open>NULL\<close>)
  together with the state it leaves behind. Calls into libelf, libdw, the operating
  system and the other modules of libdrgn are parameters of the model: their outcome is
  supplied by an environment. The structure types of libdrgn are declared in headers
  that are not part of the sources; the records below have the fields that program.c
  reads and writes.
\<close>

section \<open>Machine types and error codes\<close>

type_synonym u32 = "32 word"
type_synonym u64 = "64 word"

text \<open>
  Modelled from the spec: \<^verbatim>\<open>enum drgn_error_code\<close> is declared in drgn.h, which is not
  part of the sources. These are the codes that program.c creates or tests, named as
  the error taxonomy of the specification names them. \<open>DRGN_ERROR_LIBELF\<close> stands for the value of
  \<^verbatim>\<open>drgn_error_libelf()\<close> and \<open>DRGN_ERROR_NOT_ELF\<close> for \<^verbatim>\<open>&drgn_not_elf\<close>;
  \<open>DRGN_ERROR_STOP\<close> is the code of \<^verbatim>\<open>&drgn_stop\<close> and \<open>DRGN_ERROR_NO_MEMORY\<close> the
  code of \<^verbatim>\<open>&drgn_enomem\<close>. \<open>DRGN_ERROR_OS\<close> carries the \<^verbatim>\<open>errnum\<close> of the error. The
  message text of an error is not modelled.

  \<open>UNDEFINED_OUT_OF_BOUNDS\<close> is not a code of the library: it marks a run in which the
  C code indexes an array outside its bounds, where C defines no behaviour.
\<close>

datatype drgn_error =
    DRGN_ERROR_STOP
  | DRGN_ERROR_OTHER
  | DRGN_ERROR_INVALID_ARGUMENT
  | DRGN_ERROR_NO_MEMORY
  | DRGN_ERROR_OVERFLOW
  | DRGN_ERROR_OS int
  | DRGN_ERROR_ELF_FORMAT
  | DRGN_ERROR_LIBELF
  | DRGN_ERROR_NOT_ELF
  | DRGN_ERROR_MISSING_DEBUG
  | DRGN_ERROR_LOOKUP
  | DRGN_ERROR_FAULT
  | UNDEFINED_OUT_OF_BOUNDS

section \<open>Binary readers (read.h)\<close>

text \<open>
  Modelled from the spec: the readers of \<^verbatim>\<open>read.h\<close> are not part of program.c. The
  specification describes them as fixed-width integer and NUL-terminated string
  extraction from bounded byte slices with bounds checks. A read position \<^verbatim>\<open>p\<close> with
  its bound \<^verbatim>\<open>end\<close> is the list of the bytes from \<^verbatim>\<open>p\<close> up to \<^verbatim>\<open>end\<close>; a reader
  returns the value and the advanced position, \<open>None\<close> where the C reader returns
  \<^verbatim>\<open>false\<close>. With \<^verbatim>\<open>bswap = false\<close> the bytes are read in the order of the host,
  taken to be little-endian.
\<close>

definition word_of_bytes :: "string \<Rightarrow> u64" where
  "word_of_bytes bs = foldr (\<lambda>c acc. of_char c + 256 * acc) bs 0"

definition read_in_bounds :: "string \<Rightarrow> nat \<Rightarrow> bool" where
  "read_in_bounds p n = (n \<le> length p)"

definition read_uint :: "nat \<Rightarrow> bool \<Rightarrow> string \<Rightarrow> (u64 \<times> string) option" where
  "read_uint width bswap p =
     (if \<not> read_in_bounds p width then None
      else Some (word_of_bytes (if bswap then rev (take width p) else take width p),
                 drop width p))"

definition read_u64 :: "bool \<Rightarrow> string \<Rightarrow> (u64 \<times> string) option" where
  "read_u64 = read_uint 8"

definition read_u32_into_u64 :: "bool \<Rightarrow> string \<Rightarrow> (u64 \<times> string) option" where
  "read_u32_into_u64 = read_uint 4"

text \<open>\<^verbatim>\<open>read_string\<close>: \<^verbatim>\<open>memchr(p, 0, end - p)\<close>; the string is the bytes before the NUL, the
  position moves past the NUL.\<close>

definition read_string :: "string \<Rightarrow> (string \<times> string) option" where
  "read_string q =
     (if CHR 0x00 \<notin> set q then None
      else Some (takeWhile (\<lambda>c. c \<noteq> CHR 0x00) q,
                 tl (dropWhile (\<lambda>c. c \<noteq> CHR 0x00) q)))"

section \<open>The mapping table\<close>

text \<open>
  \<^verbatim>\<open>struct file_mapping\<close>. A path is the C string the \<^verbatim>\<open>path\<close> pointer refers to,
  without its NUL. \<open>fm_elf\<close> is the \<^verbatim>\<open>Elf *\<close> handle, \<open>None\<close> for \<^verbatim>\<open>NULL\<close>;
  \<^verbatim>\<open>append_file_mapping\<close> does not assign it (the model starts it at \<open>None\<close>) and
  \<^verbatim>\<open>open_userspace_files\<close> fills it. A table is the list of its first
  \<^verbatim>\<open>num_mappings\<close> elements, so \<^verbatim>\<open>num_mappings\<close> is its length, with the capacity of
  the allocation beside it.
\<close>

record file_mapping =
  fm_start :: u64
  fm_end :: u64
  fm_file_offset :: u64
  fm_path :: string
  fm_elf :: "nat option"

type_synonym mapping_table = "file_mapping list \<times> nat"

text \<open>
  \<^verbatim>\<open>append_file_mapping\<close> (lines 488-538). \<open>resize_ok c\<close> tells whether
  \<^verbatim>\<open>resize_array\<close> to capacity \<open>c\<close> succeeds.
\<close>

definition append_file_mapping ::
  "(nat \<Rightarrow> bool) \<Rightarrow> u64 \<Rightarrow> u64 \<Rightarrow> u64 \<Rightarrow> string \<Rightarrow> mapping_table
     \<Rightarrow> drgn_error option \<times> mapping_table" where
  "append_file_mapping resize_ok start end' file_offset path tbl =
     (let mappings = fst tbl; capacity = snd tbl in
      if start > end' then (Some DRGN_ERROR_OTHER, tbl)
      else if start = end' then (None, tbl)
      else if mappings \<noteq> [] \<and>
              fm_end (last mappings) = start \<and>
              fm_file_offset (last mappings)
                + (fm_end (last mappings) - fm_start (last mappings)) = file_offset \<and>
              fm_path (last mappings) = path
      then (Some DRGN_ERROR_STOP,
            (butlast mappings @ [(last mappings)\<lparr>fm_end := end'\<rparr>], capacity))
      else
        let new_capacity =
              (if length mappings \<ge> capacity
               then (if capacity = 0 then 1 else capacity * 2) else capacity) in
        if length mappings \<ge> capacity \<and> \<not> resize_ok new_capacity
        then (Some DRGN_ERROR_NO_MEMORY, tbl)
        else (None,
              (mappings @ [\<lparr>fm_start = start, fm_end = end', fm_file_offset = file_offset,
                            fm_path = path, fm_elf = None\<rparr>], new_capacity)))"

text \<open>
  \<^verbatim>\<open>parse_nt_file\<close> (lines 540-610). \<open>read_entry\<close> is the three unchecked word reads of
  one entry; they stay in bounds because of the check on \<^verbatim>\<open>paths_offset\<close>, and a read
  out of bounds is reported as \<open>UNDEFINED_OUT_OF_BOUNDS\<close>. \<open>malloc_ok n\<close> tells
  whether \<^verbatim>\<open>malloc(n)\<close> succeeds. The loop runs \<^verbatim>\<open>count\<close> times, \<open>p\<close> walking the
  entries and \<open>q\<close> the paths.

  When \<^verbatim>\<open>append_file_mapping\<close> returns \<^verbatim>\<open>NULL\<close> the C code stores a fresh copy of the
  path in the element at index \<^verbatim>\<open>*num_mappings - 1\<close>; with an empty table that index is
  out of bounds. When the \<^verbatim>\<open>malloc\<close> of that copy fails the C code leaves a \<^verbatim>\<open>NULL\<close>
  path in that element and returns; the model keeps the table as it was appended.
\<close>

definition read_entry :: "bool \<Rightarrow> string \<Rightarrow> ((u64 \<times> u64 \<times> u64) \<times> string) option" where
  "read_entry is_64_bit p =
     (let rd = (if is_64_bit then read_u64 False else read_u32_into_u64 False) in
      case rd p of None \<Rightarrow> None
      | Some (mapping_start, p1) \<Rightarrow>
          (case rd p1 of None \<Rightarrow> None
           | Some (mapping_end, p2) \<Rightarrow>
               (case rd p2 of None \<Rightarrow> None
                | Some (file_offset, p3) \<Rightarrow>
                    Some ((mapping_start, mapping_end, file_offset), p3))))"

fun parse_nt_file_loop ::
  "(nat \<Rightarrow> bool) \<Rightarrow> (nat \<Rightarrow> bool) \<Rightarrow> bool \<Rightarrow> u64 \<Rightarrow> nat \<Rightarrow> string \<Rightarrow> string
     \<Rightarrow> mapping_table \<Rightarrow> drgn_error option \<times> mapping_table" where
  "parse_nt_file_loop resize_ok malloc_ok is_64_bit page_size 0 p q tbl = (None, tbl)"
| "parse_nt_file_loop resize_ok malloc_ok is_64_bit page_size (Suc n) p q tbl =
     (case read_entry is_64_bit p of
        None \<Rightarrow> (Some UNDEFINED_OUT_OF_BOUNDS, tbl)
      | Some ((mapping_start, mapping_end, file_offset), p') \<Rightarrow>
          (case read_string q of
             None \<Rightarrow> (Some DRGN_ERROR_ELF_FORMAT, tbl)
           | Some (path, q') \<Rightarrow>
               (case append_file_mapping resize_ok mapping_start mapping_end
                       (file_offset * page_size) path tbl of
                  (None, (mappings, capacity)) \<Rightarrow>
                    if mappings = [] then (Some UNDEFINED_OUT_OF_BOUNDS, (mappings, capacity))
                    else if \<not> malloc_ok (length path + 1)
                    then (Some DRGN_ERROR_NO_MEMORY, (mappings, capacity))
                    else parse_nt_file_loop resize_ok malloc_ok is_64_bit page_size n p' q'
                           (butlast mappings @ [(last mappings)\<lparr>fm_path := path\<rparr>], capacity)
                | (Some err, tbl') \<Rightarrow>
                    if err \<noteq> DRGN_ERROR_STOP then (Some err, tbl')
                    else parse_nt_file_loop resize_ok malloc_ok is_64_bit page_size n p' q'
                           tbl')))"

definition parse_nt_file ::
  "(nat \<Rightarrow> bool) \<Rightarrow> (nat \<Rightarrow> bool) \<Rightarrow> string \<Rightarrow> bool \<Rightarrow> mapping_table
     \<Rightarrow> drgn_error option \<times> mapping_table" where
  "parse_nt_file resize_ok malloc_ok desc is_64_bit tbl =
     (let rd = (if is_64_bit then read_u64 False else read_u32_into_u64 False) in
      case rd desc of None \<Rightarrow> (Some DRGN_ERROR_ELF_FORMAT, tbl)
      | Some (count, p1) \<Rightarrow>
          (case rd p1 of None \<Rightarrow> (Some DRGN_ERROR_ELF_FORMAT, tbl)
           | Some (page_size, p) \<Rightarrow>
               let paths_offset = unat count * (if is_64_bit then 24 else 12) in
               if paths_offset \<ge> 2 ^ 64 then (Some DRGN_ERROR_ELF_FORMAT, tbl)
               else if \<not> read_in_bounds p paths_offset then (Some DRGN_ERROR_ELF_FORMAT, tbl)
               else parse_nt_file_loop resize_ok malloc_ok is_64_bit page_size (unat count)
                      p (drop paths_offset p) tbl))"

text \<open>The merge condition of the specification's invariant on two consecutive mappings,
  and the invariant on a table.\<close>

definition mergeable :: "file_mapping \<Rightarrow> file_mapping \<Rightarrow> bool" where
  "mergeable a b =
     (fm_path a = fm_path b \<and> fm_end a = fm_start b \<and>
      fm_file_offset a + (fm_end a - fm_start a) = fm_file_offset b)"

fun no_mergeable_neighbours :: "file_mapping list \<Rightarrow> bool" where
  "no_mergeable_neighbours (a # b # ms) = (\<not> mergeable a b \<and> no_mergeable_neighbours (b # ms))"
| "no_mergeable_neighbours ms = True"


section \<open>VMCOREINFO\<close>

text \<open>
  \<^verbatim>\<open>strtoull(line, &nend, 16)\<close> of the C library, after ISO C and the GNU
  implementation: white space is skipped, then an optional sign, then an optional
  \<^verbatim>\<open>0x\<close> or \<^verbatim>\<open>0X\<close>, then the longest run of hexadecimal digits. The result is the
  value, the number of characters between \<^verbatim>\<open>line\<close> and \<^verbatim>\<open>nend\<close>, and whether
  \<^verbatim>\<open>errno\<close> is \<^verbatim>\<open>ERANGE\<close>. With no digit nothing is converted (\<^verbatim>\<open>nend = line\<close>,
  unless a lone \<^verbatim>\<open>0x\<close> was read, where \<^verbatim>\<open>nend\<close> is after the \<^verbatim>\<open>0\<close>). A value above
  \<^verbatim>\<open>ULLONG_MAX\<close> gives \<^verbatim>\<open>ULLONG_MAX\<close> and \<^verbatim>\<open>ERANGE\<close>; a minus sign negates the value
  in unsigned arithmetic. The text is the bytes from \<^verbatim>\<open>line\<close> to the end of the
  descriptor; the byte after the descriptor is taken to be no digit and no white space.
\<close>

definition isspace :: "char \<Rightarrow> bool" where
  "isspace c = (c = CHR '' '' \<or> c = CHR 0x09 \<or> c = CHR 0x0A \<or> c = CHR 0x0B \<or>
                c = CHR 0x0C \<or> c = CHR 0x0D)"

definition hex_digit :: "char \<Rightarrow> nat option" where
  "hex_digit c =
     (let n = (of_char c :: nat) in
      if 48 \<le> n \<and> n \<le> 57 then Some (n - 48)
      else if 97 \<le> n \<and> n \<le> 102 then Some (n - 87)
      else if 65 \<le> n \<and> n \<le> 70 then Some (n - 55)
      else None)"

fun strtoull_digits :: "string \<Rightarrow> nat \<Rightarrow> nat \<Rightarrow> nat \<times> nat" where
  "strtoull_digits [] acc n = (acc, n)"
| "strtoull_digits (c # cs) acc n =
     (case hex_digit c of
        None \<Rightarrow> (acc, n)
      | Some d \<Rightarrow> strtoull_digits cs (acc * 16 + d) (Suc n))"

definition has_hex_prefix :: "string \<Rightarrow> bool" where
  "has_hex_prefix s =
     (case s of
        c0 # c1 # _ \<Rightarrow> c0 = CHR ''0'' \<and> (c1 = CHR ''x'' \<or> c1 = CHR ''X'')
      | _ \<Rightarrow> False)"

definition strtoull16 :: "string \<Rightarrow> u64 \<times> nat \<times> bool" where
  "strtoull16 s =
     (let ws = length (takeWhile isspace s);
          s1 = dropWhile isspace s;
          negative = (s1 \<noteq> [] \<and> hd s1 = CHR ''-'');
          sg = (if s1 \<noteq> [] \<and> (hd s1 = CHR ''-'' \<or> hd s1 = CHR ''+'') then 1 else 0);
          s2 = drop sg s1;
          px = (if has_hex_prefix s2 then 2 else 0);
          v = fst (strtoull_digits (drop px s2) 0 0);
          n = snd (strtoull_digits (drop px s2) 0 0)
      in if n = 0 then (0, if has_hex_prefix s2 then ws + sg + 1 else 0, False)
         else if v \<ge> 2 ^ 64 then (- 1, ws + sg + px + n, True)
         else (if negative then - of_nat v else of_nat v, ws + sg + px + n, False))"

text \<open>
  \<^verbatim>\<open>struct vmcoreinfo\<close>. \<open>osrelease\<close> holds the bytes copied into the buffer, before
  the NUL the code writes behind them.

  Modelled from the spec: the size of the \<^verbatim>\<open>osrelease\<close> buffer is declared in
  program.h, which is not part of the sources; the specification gives it as 64 bytes.
\<close>

record vmcoreinfo =
  osrelease :: string
  kaslr_offset :: u64

definition sizeof_osrelease :: nat where
  "sizeof_osrelease = 64"

text \<open>\<^verbatim>\<open>linematch\<close> (lines 612-622): the line behind the prefix, when the prefix matches.\<close>

definition linematch :: "string \<Rightarrow> string \<Rightarrow> string option" where
  "linematch line prefix =
     (if take (length prefix) line = prefix then Some (drop (length prefix) line) else None)"

text \<open>
  The loop of \<^verbatim>\<open>parse_vmcoreinfo\<close> (lines 631-662) on the bytes from \<^verbatim>\<open>line\<close> to
  \<^verbatim>\<open>end\<close>. \<open>Some\<close> error is an early \<^verbatim>\<open>return\<close>; \<open>None\<close> is the end of the loop.
\<close>

function parse_vmcoreinfo_loop :: "string \<Rightarrow> vmcoreinfo \<Rightarrow> drgn_error option \<times> vmcoreinfo" where
  "parse_vmcoreinfo_loop line ret =
     (if line = [] then (None, ret)
      else if CHR 0x0A \<notin> set line then (None, ret)
      else
        (case linematch line ''OSRELEASE='' of
           Some line' \<Rightarrow>
             if length (takeWhile (\<lambda>c. c \<noteq> CHR 0x0A) line') \<ge> sizeof_osrelease
             then (Some DRGN_ERROR_OTHER, ret)
             else parse_vmcoreinfo_loop (tl (dropWhile (\<lambda>c. c \<noteq> CHR 0x0A) line))
                    (ret\<lparr>osrelease := takeWhile (\<lambda>c. c \<noteq> CHR 0x0A) line'\<rparr>)
         | None \<Rightarrow>
             (case linematch line ''KERNELOFFSET='' of
                Some line' \<Rightarrow>
                  if snd (snd (strtoull16 line')) then (Some DRGN_ERROR_OVERFLOW, ret)
                  else if fst (snd (strtoull16 line')) = 0 \<or>
                          fst (snd (strtoull16 line'))
                            \<noteq> length (takeWhile (\<lambda>c. c \<noteq> CHR 0x0A) line')
                  then (Some DRGN_ERROR_OVERFLOW, ret)
                  else parse_vmcoreinfo_loop (tl (dropWhile (\<lambda>c. c \<noteq> CHR 0x0A) line))
                         (ret\<lparr>kaslr_offset := fst (strtoull16 line')\<rparr>)
              | None \<Rightarrow>
                  parse_vmcoreinfo_loop (tl (dropWhile (\<lambda>c. c \<noteq> CHR 0x0A) line)) ret)))"
  by pat_completeness auto
termination
proof (relation "measure (\<lambda>(line, ret). length line)")
  show "wf (measure (\<lambda>(line, ret). length line))" by simp
next
  fix line :: string and ret :: vmcoreinfo and x2 :: string
  assume "line \<noteq> []"
  then have "length (tl (dropWhile (\<lambda>c. c \<noteq> CHR 0x0A) line)) < length line"
    by (cases line) (auto simp: less_Suc_eq_le length_dropWhile_le intro: le_trans [OF diff_le_self])
  then show "((tl (dropWhile (\<lambda>c. c \<noteq> CHR 0x0A) line),
               ret\<lparr>osrelease := takeWhile (\<lambda>c. c \<noteq> CHR 0x0A) x2\<rparr>), line, ret)
             \<in> measure (\<lambda>(line, ret). length line)"
    and "((tl (dropWhile (\<lambda>c. c \<noteq> CHR 0x0A) line),
            ret\<lparr>kaslr_offset := fst (strtoull16 x2)\<rparr>), line, ret)
          \<in> measure (\<lambda>(line, ret). length line)"
    and "((tl (dropWhile (\<lambda>c. c \<noteq> CHR 0x0A) line), ret), line, ret)
          \<in> measure (\<lambda>(line, ret). length line)"
    by simp_all
qed

declare parse_vmcoreinfo_loop.simps [simp del]

text \<open>\<^verbatim>\<open>parse_vmcoreinfo\<close> (lines 624-668). The contents of \<^verbatim>\<open>*ret\<close> on entry are
  overwritten.\<close>

definition parse_vmcoreinfo :: "string \<Rightarrow> drgn_error option \<times> vmcoreinfo" where
  "parse_vmcoreinfo desc =
     (case parse_vmcoreinfo_loop desc \<lparr>osrelease = [], kaslr_offset = 0\<rparr> of
        (Some err, ret) \<Rightarrow> (Some err, ret)
      | (None, ret) \<Rightarrow>
          if osrelease ret = [] \<or> hd (osrelease ret) = CHR 0x00
          then (Some DRGN_ERROR_OTHER, ret)
          else (None, ret))"


section \<open>The program and its cleanup stack\<close>

text \<open>
  \<^verbatim>\<open>struct drgn_cleanup\<close> is a callback with its argument; the stack is the list of
  the entries from \<^verbatim>\<open>prog->cleanup\<close> along \<^verbatim>\<open>next\<close>, the newest first. Handles of the
  objects of other modules (reader, indices, file descriptors, allocations) are
  natural numbers. \<open>prog_flags\<close> is the bit set \<^verbatim>\<open>enum drgn_program_flags\<close>.
\<close>

datatype cleanup_cb =
    cleanup_fd
  | free_cb
  | cleanup_dwarf_index
  | cleanup_dwarf_type_cache
  | cleanup_file_mappings

type_synonym drgn_cleanup = "cleanup_cb \<times> nat"

record drgn_program =
  prog_reader :: nat
  prog_tindex :: nat
  prog_sindex :: nat
  prog_cleanup :: "drgn_cleanup list"
  prog_flags :: u32
  prog_vmcoreinfo :: vmcoreinfo
  prog_mappings :: "file_mapping list"

text \<open>Modelled from the spec: \<^verbatim>\<open>DRGN_PROGRAM_IS_LINUX_KERNEL\<close> is declared in drgn.h,
  which is not part of the sources; it is the only flag, taken as bit 0.\<close>

definition DRGN_PROGRAM_IS_LINUX_KERNEL :: u32 where
  "DRGN_PROGRAM_IS_LINUX_KERNEL = 1"

definition drgn_program_flags :: "drgn_program \<Rightarrow> u32" where
  "drgn_program_flags prog = prog_flags prog"

definition drgn_program_init :: "drgn_program \<Rightarrow> nat \<Rightarrow> nat \<Rightarrow> nat \<Rightarrow> drgn_program" where
  "drgn_program_init prog reader tindex sindex =
     prog\<lparr>prog_reader := reader, prog_tindex := tindex, prog_sindex := sindex,
          prog_cleanup := [], prog_flags := 0\<rparr>"

text \<open>
  What a run releases, in order. \<open>Run_cleanup\<close> is a callback called through the
  cleanup stack (\<^verbatim>\<open>cleanup->cb(cleanup->arg)\<close> in \<^verbatim>\<open>drgn_program_deinit\<close>); the others
  are the direct calls of the release functions.
\<close>

datatype release =
    Run_cleanup cleanup_cb nat
  | Symbol_index_destroy nat
  | Type_index_destroy nat
  | Memory_reader_destroy nat
  | Dwarf_type_cache_destroy nat
  | Dwarf_index_destroy nat
  | Free_file_mappings "file_mapping list"
  | Free_file_segments nat
  | Elf_end "nat option"
  | Close_fd nat

text \<open>\<^verbatim>\<open>drgn_program_deinit\<close> (lines 60-77).\<close>

definition drgn_program_deinit :: "drgn_program \<Rightarrow> release list" where
  "drgn_program_deinit prog =
     [Symbol_index_destroy (prog_sindex prog),
      Type_index_destroy (prog_tindex prog),
      Memory_reader_destroy (prog_reader prog)]
     @ map (\<lambda>(cb, arg). Run_cleanup cb arg) (prog_cleanup prog)"

text \<open>\<^verbatim>\<open>drgn_program_add_cleanup\<close> (lines 79-92); \<open>malloc_ok\<close> tells whether the
  allocation of the entry succeeds.\<close>

definition drgn_program_add_cleanup ::
  "bool \<Rightarrow> drgn_program \<Rightarrow> cleanup_cb \<Rightarrow> nat \<Rightarrow> drgn_error option \<times> drgn_program" where
  "drgn_program_add_cleanup malloc_ok prog cb arg =
     (if \<not> malloc_ok then (Some DRGN_ERROR_NO_MEMORY, prog)
      else (None, prog\<lparr>prog_cleanup := (cb, arg) # prog_cleanup prog\<rparr>))"

text \<open>\<^verbatim>\<open>drgn_program_remove_cleanup\<close> (lines 94-110): the first entry with this callback
  and argument is unlinked and freed, without being called.\<close>

fun remove_cleanup_entry :: "drgn_cleanup list \<Rightarrow> cleanup_cb \<Rightarrow> nat \<Rightarrow> bool \<times> drgn_cleanup list" where
  "remove_cleanup_entry [] cb arg = (False, [])"
| "remove_cleanup_entry (cleanup # rest) cb arg =
     (if fst cleanup = cb \<and> snd cleanup = arg then (True, rest)
      else (fst (remove_cleanup_entry rest cb arg),
            cleanup # snd (remove_cleanup_entry rest cb arg)))"

definition drgn_program_remove_cleanup ::
  "drgn_program \<Rightarrow> cleanup_cb \<Rightarrow> nat \<Rightarrow> bool \<times> drgn_program" where
  "drgn_program_remove_cleanup prog cb arg =
     (fst (remove_cleanup_entry (prog_cleanup prog) cb arg),
      prog\<lparr>prog_cleanup := snd (remove_cleanup_entry (prog_cleanup prog) cb arg)\<rparr>)"

section \<open>The relocation hooks\<close>

text \<open>
  \<^verbatim>\<open>struct drgn_symbol\<close>, the record exchanged with the symbol index; \<open>sym_value\<close> is
  the union of \<^verbatim>\<open>svalue\<close> and \<^verbatim>\<open>uvalue\<close>. \<^verbatim>\<open>GElf_Phdr\<close> with the fields program.c
  reads.
\<close>

record drgn_symbol =
  sym_qualified_type :: nat
  sym_is_enumerator :: bool
  sym_little_endian :: bool
  sym_address :: u64
  sym_value :: u64

record gelf_phdr =
  p_type :: u32
  p_offset :: u64
  p_vaddr :: u64
  p_paddr :: u64
  p_filesz :: u64
  p_memsz :: u64
  p_align :: u64

text \<open>Constants of the system headers elf.h and errno.h; \<^verbatim>\<open>NT_FILE\<close> is also defined at
  line 29.\<close>

definition PT_LOAD :: u32 where "PT_LOAD = 1"
definition PT_NOTE :: u32 where "PT_NOTE = 4"
definition ET_REL :: nat where "ET_REL = 1"
definition ET_EXEC :: nat where "ET_EXEC = 2"
definition ET_CORE :: nat where "ET_CORE = 4"
definition NT_TASKSTRUCT :: u32 where "NT_TASKSTRUCT = 4"
definition NT_FILE :: u32 where "NT_FILE = 0x46494c45"
definition ENOENT :: int where "ENOENT = 2"

text \<open>
  What libelf answers about the ELF file of a symbol (\<^verbatim>\<open>dwarf_getelf\<close> of its DIE):
  its handle, the result of \<^verbatim>\<open>elf_getphdrnum\<close>, and of \<^verbatim>\<open>gelf_getphdr\<close> for each index
  (\<open>None\<close> where the call fails).
\<close>

record symbol_elf =
  se_elf :: nat
  se_phdrnum_ok :: bool
  se_phdrs :: "gelf_phdr option list"

text \<open>The test of lines 452-454: a \<^verbatim>\<open>PT_LOAD\<close> segment that contains the address, in
  64-bit arithmetic.\<close>

definition segment_contains :: "gelf_phdr \<Rightarrow> u64 \<Rightarrow> bool" where
  "segment_contains phdr address =
     (p_type phdr = PT_LOAD \<and> p_vaddr phdr \<le> address \<and>
      address < p_vaddr phdr + p_memsz phdr)"

text \<open>The first loop of \<^verbatim>\<open>userspace_relocation_hook\<close> (lines 445-464): the file offset
  of the address in the first \<^verbatim>\<open>PT_LOAD\<close> segment that contains it.\<close>

fun find_segment_offset :: "gelf_phdr option list \<Rightarrow> u64 \<Rightarrow> drgn_error + u64" where
  "find_segment_offset [] address = Inl DRGN_ERROR_LOOKUP"
| "find_segment_offset (None # phdrs) address = Inl DRGN_ERROR_LIBELF"
| "find_segment_offset (Some phdr # phdrs) address =
     (if segment_contains phdr address
      then Inr (p_offset phdr + address - p_vaddr phdr)
      else find_segment_offset phdrs address)"

text \<open>The test of lines 470-473: a mapping of this ELF file whose file range contains
  the file offset; \<^verbatim>\<open>mapping_size\<close> is \<^verbatim>\<open>end - start\<close>.\<close>

definition mapping_contains :: "file_mapping \<Rightarrow> nat \<Rightarrow> u64 \<Rightarrow> bool" where
  "mapping_contains mapping elf file_offset =
     (fm_elf mapping = Some elf \<and> fm_file_offset mapping \<le> file_offset \<and>
      file_offset < fm_file_offset mapping + (fm_end mapping - fm_start mapping))"

text \<open>The second loop (lines 466-481): the address in the first mapping that contains
  the file offset.\<close>

fun find_mapping_address :: "file_mapping list \<Rightarrow> nat \<Rightarrow> u64 \<Rightarrow> drgn_error + u64" where
  "find_mapping_address [] elf file_offset = Inl DRGN_ERROR_LOOKUP"
| "find_mapping_address (mapping # mappings) elf file_offset =
     (if mapping_contains mapping elf file_offset
      then Inr (fm_start mapping + file_offset - fm_file_offset mapping)
      else find_mapping_address mappings elf file_offset)"

definition userspace_relocation_hook ::
  "drgn_program \<Rightarrow> symbol_elf \<Rightarrow> drgn_symbol \<Rightarrow> drgn_error option \<times> drgn_symbol" where
  "userspace_relocation_hook prog elf symb =
     (if \<not> se_phdrnum_ok elf then (Some DRGN_ERROR_LIBELF, symb)
      else
        (case find_segment_offset (se_phdrs elf) (sym_address symb) of
           Inl err \<Rightarrow> (Some err, symb)
         | Inr file_offset \<Rightarrow>
             (case find_mapping_address (prog_mappings prog) (se_elf elf) file_offset of
                Inl err \<Rightarrow> (Some err, symb)
              | Inr address \<Rightarrow> (None, symb\<lparr>sym_address := address\<rparr>))))"

text \<open>
  What the kernel hook learns from outside program.c about the ELF file of a symbol and
  about the running kernel: the \<^verbatim>\<open>e_type\<close> of \<^verbatim>\<open>gelf_getehdr\<close> (\<open>None\<close> where it fails),
  whether \<^verbatim>\<open>elf_getshdrstrndx\<close> succeeds, the sections of \<^verbatim>\<open>elf_nextscn\<close> with their
  names (\<open>None\<close> where \<^verbatim>\<open>gelf_getshdr\<close> or \<^verbatim>\<open>elf_strptr\<close> fails), and the results of
  \<^verbatim>\<open>get_module_name\<close>, \<^verbatim>\<open>get_symbol_section_name\<close>, \<^verbatim>\<open>find_module\<close> and
  \<^verbatim>\<open>find_section_address\<close>, which read the sections through libelf and the kernel's
  module list through the object interface.
\<close>

record kernel_elf =
  ke_e_type :: "nat option"
  ke_shdrstrndx_ok :: bool
  ke_sections :: "(nat \<times> string option) list"
  ke_get_module_name :: "nat \<Rightarrow> drgn_error + string"
  ke_get_symbol_section_name :: "nat \<Rightarrow> u64 \<Rightarrow> drgn_error + string"
  ke_find_module :: "string \<Rightarrow> drgn_error + nat"
  ke_find_section_address :: "nat \<Rightarrow> string \<Rightarrow> drgn_error + u64"

text \<open>The section scan (lines 376-393): the last section named \<^verbatim>\<open>.modinfo\<close> and the last
  named \<^verbatim>\<open>.symtab\<close>.\<close>

fun scan_sections ::
  "(nat \<times> string option) list \<Rightarrow> nat option \<Rightarrow> nat option \<Rightarrow> nat option \<times> nat option" where
  "scan_sections [] modinfo_scn symtab_scn = (modinfo_scn, symtab_scn)"
| "scan_sections ((scn, scnname) # scns) modinfo_scn symtab_scn =
     (if scnname = None then scan_sections scns modinfo_scn symtab_scn
      else if scnname = Some ''.modinfo'' then scan_sections scns (Some scn) symtab_scn
      else if scnname = Some ''.symtab'' then scan_sections scns modinfo_scn (Some scn)
      else scan_sections scns modinfo_scn symtab_scn)"

definition kernel_relocation_hook ::
  "drgn_program \<Rightarrow> kernel_elf \<Rightarrow> drgn_symbol \<Rightarrow> drgn_error option \<times> drgn_symbol" where
  "kernel_relocation_hook prog elf symb =
     (case ke_e_type elf of
        None \<Rightarrow> (Some DRGN_ERROR_LIBELF, symb)
      | Some e_type \<Rightarrow>
          if e_type = ET_EXEC
          then (None, symb\<lparr>sym_address := sym_address symb + kaslr_offset (prog_vmcoreinfo prog)\<rparr>)
          else if \<not> ke_shdrstrndx_ok elf then (Some DRGN_ERROR_LIBELF, symb)
          else
            (case scan_sections (ke_sections elf) None None of
               (None, _) \<Rightarrow> (Some DRGN_ERROR_LOOKUP, symb)
             | (Some modinfo_scn, None) \<Rightarrow> (Some DRGN_ERROR_LOOKUP, symb)
             | (Some modinfo_scn, Some symtab_scn) \<Rightarrow>
                 (case ke_get_module_name elf modinfo_scn of
                    Inl err \<Rightarrow> (Some err, symb)
                  | Inr module_name \<Rightarrow>
                      (case ke_get_symbol_section_name elf symtab_scn (sym_address symb) of
                         Inl err \<Rightarrow> (Some err, symb)
                       | Inr section_name \<Rightarrow>
                           (case ke_find_module elf module_name of
                              Inl err \<Rightarrow> (Some err, symb)
                            | Inr module \<Rightarrow>
                                (case ke_find_section_address elf module section_name of
                                   Inl err \<Rightarrow> (Some err, symb)
                                 | Inr section_address \<Rightarrow>
                                     (None, symb\<lparr>sym_address :=
                                               sym_address symb + section_address\<rparr>)))))))"

section \<open>Reading a C string from the target\<close>

text \<open>
  \<^verbatim>\<open>drgn_program_read_c_string\<close> (lines 1664-1704). \<open>read_byte physical address\<close> is
  \<^verbatim>\<open>drgn_memory_reader_read\<close> of one byte; \<open>resize_ok c\<close> tells whether \<^verbatim>\<open>resize_array\<close>
  to \<open>c\<close> bytes succeeds and \<open>malloc_ok\<close> whether the first \<^verbatim>\<open>malloc\<close> does. \<open>str\<close> is
  the buffer up to \<^verbatim>\<open>size\<close>, so \<^verbatim>\<open>size\<close> is its length. The result is the buffer with
  its final NUL.
\<close>

function read_c_string_loop ::
  "(nat \<Rightarrow> bool) \<Rightarrow> (u64 \<Rightarrow> drgn_error + char) \<Rightarrow> nat \<Rightarrow> u64 \<Rightarrow> string \<Rightarrow> nat
     \<Rightarrow> drgn_error + string" where
  "read_c_string_loop resize_ok read_byte max_size address str capacity =
     (if length str \<ge> capacity \<and> \<not> resize_ok (capacity * 2) then Inl DRGN_ERROR_NO_MEMORY
      else if length str < max_size then
        (case read_byte address of
           Inl err \<Rightarrow> Inl err
         | Inr c \<Rightarrow>
             if c = CHR 0x00 then Inr (str @ [c])
             else read_c_string_loop resize_ok read_byte max_size (address + 1) (str @ [c])
                    (if length str \<ge> capacity then capacity * 2 else capacity))
      else Inr (str @ [CHR 0x00]))"
  by pat_completeness auto
termination
  by (relation "measure (\<lambda>(resize_ok, read_byte, max_size, address, str, capacity).
                           max_size - length str)") auto

declare read_c_string_loop.simps [simp del]

definition drgn_program_read_c_string ::
  "bool \<Rightarrow> (nat \<Rightarrow> bool) \<Rightarrow> (bool \<Rightarrow> u64 \<Rightarrow> drgn_error + char) \<Rightarrow> u64 \<Rightarrow> bool \<Rightarrow> nat
     \<Rightarrow> drgn_error + string" where
  "drgn_program_read_c_string malloc_ok resize_ok read_byte address physical max_size =
     (if \<not> malloc_ok then Inl DRGN_ERROR_NO_MEMORY
      else read_c_string_loop resize_ok (read_byte physical) max_size address [] 1)"


section \<open>Bootstrapping from a core dump\<close>

text \<open>
  \<^verbatim>\<open>drgn_program_init_core_dump\<close> (lines 1092-1406) calls the operating system, libelf
  and the other modules of libdrgn at every step. Their answers are the environment
  of a run, in three records: what the file and libelf answer, which allocations
  succeed, and what the other modules of libdrgn answer. An answer of type
  \<open>drgn_error + 'a\<close> is the error or the object created; of type
  \<open>drgn_error option\<close>, the error or \<^verbatim>\<open>NULL\<close>.
\<close>

text \<open>A note as \<^verbatim>\<open>gelf_getnote\<close> yields it: the header fields, the C string at
  \<^verbatim>\<open>name_offset\<close> and the \<^verbatim>\<open>n_descsz\<close> bytes at \<^verbatim>\<open>desc_offset\<close>.\<close>

record elf_note =
  n_namesz :: nat
  n_type :: u32
  note_name :: string
  note_desc :: string

text \<open>
  \<open>cf_open\<close>: \<^verbatim>\<open>open(path)\<close>, the \<^verbatim>\<open>errno\<close> or the descriptor; \<open>cf_elf_begin\<close>: the
  \<^verbatim>\<open>Elf\<close> handle; \<open>cf_ehdr\<close>: \<^verbatim>\<open>e_type\<close> and whether the class is \<^verbatim>\<open>ELFCLASS64\<close>;
  \<open>cf_phdrs\<close>: \<^verbatim>\<open>gelf_getphdr\<close> for each index below \<^verbatim>\<open>phnum\<close>; \<open>cf_notes i\<close>: the notes
  of the segment of program header \<open>i\<close>, \<open>None\<close> where \<^verbatim>\<open>elf_getdata_rawchunk\<close> fails;
  \<open>cf_fstatfs\<close>: the \<^verbatim>\<open>errno\<close> of \<^verbatim>\<open>fstatfs\<close> or the \<^verbatim>\<open>f_type\<close> it reports.
\<close>

record core_file =
  cf_open :: "int + nat"
  cf_elf_begin :: "nat option"
  cf_ehdr :: "(nat \<times> bool) option"
  cf_phdrnum_ok :: bool
  cf_phdrs :: "gelf_phdr option list"
  cf_notes :: "nat \<Rightarrow> elf_note list option"
  cf_fstatfs :: "int + u64"

text \<open>
  \<open>ca_file_segments\<close>: \<^verbatim>\<open>malloc_array\<close> of the file segments; \<open>ca_resize_ok\<close> and
  \<open>ca_malloc_ok\<close>: \<^verbatim>\<open>resize_array\<close> and \<^verbatim>\<open>malloc\<close> inside \<^verbatim>\<open>parse_nt_file\<close>;
  \<open>ca_add_cleanup_ok k\<close>: the allocation of the \<open>k\<close>-th cleanup entry.
\<close>

record core_alloc =
  ca_file_segments :: "nat option"
  ca_resize_ok :: "nat \<Rightarrow> bool"
  ca_malloc_ok :: "nat \<Rightarrow> bool"
  ca_add_cleanup_ok :: "nat \<Rightarrow> bool"

text \<open>
  The other modules: \<^verbatim>\<open>drgn_memory_reader_create\<close>, \<^verbatim>\<open>drgn_memory_reader_add_segment\<close>
  (virtual address, physical address, size), \<^verbatim>\<open>read_vmcoreinfo_from_sysfs\<close> and
  \<^verbatim>\<open>get_fallback_vmcoreinfo\<close> (which read files of the running system),
  \<^verbatim>\<open>drgn_dwarf_index_create\<close>, \<^verbatim>\<open>open_kernel_files\<close> (of a release),
  \<^verbatim>\<open>drgn_dwarf_index_open\<close> (of a path; the ELF handle on success),
  \<^verbatim>\<open>drgn_dwarf_index_update\<close>, \<^verbatim>\<open>drgn_type_index_create\<close>,
  \<^verbatim>\<open>drgn_dwarf_type_cache_create\<close>, \<^verbatim>\<open>drgn_type_index_add_finder\<close> and
  \<^verbatim>\<open>drgn_dwarf_symbol_index_create\<close>.
\<close>

record core_modules =
  cm_reader_create :: "drgn_error + nat"
  cm_add_segment :: "u64 \<Rightarrow> u64 \<Rightarrow> u64 \<Rightarrow> drgn_error option"
  cm_read_vmcoreinfo_from_sysfs :: "drgn_error + vmcoreinfo"
  cm_get_fallback_vmcoreinfo :: "drgn_error + vmcoreinfo"
  cm_dindex_create :: "drgn_error + nat"
  cm_open_kernel_files :: "string \<Rightarrow> drgn_error option"
  cm_dwarf_index_open :: "string \<Rightarrow> drgn_error + nat"
  cm_dindex_update :: "drgn_error option"
  cm_tindex_create :: "drgn_error + nat"
  cm_dtcache_create :: "drgn_error + nat"
  cm_add_finder :: "drgn_error option"
  cm_dsindex_create :: "drgn_error + nat"

datatype relocation_hook = Kernel_relocation_hook | Userspace_relocation_hook

text \<open>
  The outcome of a run: the error returned (\<open>None\<close> is \<^verbatim>\<open>NULL\<close>), the memory of
  \<^verbatim>\<open>*prog\<close> on return, the relocation hook installed in the symbol index, and the
  releases the run performed, in order.
\<close>

record core_result =
  cr_err :: "drgn_error option"
  cr_prog :: drgn_program
  cr_hook :: "relocation_hook option"
  cr_released :: "release list"

definition core_fail :: "drgn_error \<Rightarrow> drgn_program \<Rightarrow> release list \<Rightarrow> core_result" where
  "core_fail err prog released =
     \<lparr>cr_err = Some err, cr_prog = prog, cr_hook = None, cr_released = released\<rparr>"

text \<open>The exit labels \<^verbatim>\<open>out_fd\<close> to \<^verbatim>\<open>out_mappings\<close> (lines 1396-1405): each falls through
  to the next.\<close>

definition out_fd :: "nat \<Rightarrow> release list" where
  "out_fd fd = [Close_fd fd]"

definition out_elf :: "nat option \<Rightarrow> nat \<Rightarrow> release list" where
  "out_elf elf fd = Elf_end elf # out_fd fd"

definition out_reader :: "nat \<Rightarrow> nat option \<Rightarrow> nat \<Rightarrow> release list" where
  "out_reader reader elf fd = Memory_reader_destroy reader # out_elf elf fd"

definition out_mappings ::
  "file_mapping list \<Rightarrow> nat \<Rightarrow> nat \<Rightarrow> nat option \<Rightarrow> nat \<Rightarrow> release list" where
  "out_mappings mappings file_segments reader elf fd =
     Free_file_mappings mappings # Free_file_segments file_segments # out_reader reader elf fd"

text \<open>The first pass over the program headers (lines 1149-1164): the number of
  \<^verbatim>\<open>PT_LOAD\<close> segments and whether one has a physical address; \<open>None\<close> where
  \<^verbatim>\<open>gelf_getphdr\<close> fails.\<close>

fun first_pass :: "gelf_phdr option list \<Rightarrow> nat \<Rightarrow> bool \<Rightarrow> (nat \<times> bool) option" where
  "first_pass [] num_file_segments have_non_zero_phys_addr =
     Some (num_file_segments, have_non_zero_phys_addr)"
| "first_pass (None # phdrs) num_file_segments have_non_zero_phys_addr = None"
| "first_pass (Some phdr # phdrs) num_file_segments have_non_zero_phys_addr =
     (if p_type phdr = PT_LOAD
      then first_pass phdrs (Suc num_file_segments)
             (have_non_zero_phys_addr \<or> p_paddr phdr \<noteq> 0)
      else first_pass phdrs num_file_segments have_non_zero_phys_addr)"

text \<open>
  The state of the second pass (lines 1175-1258). \<open>p2_prog_mappings\<close> is the table behind
  \<^verbatim>\<open>prog->mappings\<close> and \<^verbatim>\<open>prog->num_mappings\<close>, which is what the call of
  \<^verbatim>\<open>parse_nt_file\<close> at line 1235 is given, with the local \<^verbatim>\<open>mappings_capacity\<close>;
  \<open>p2_current\<close> counts the file segments added; \<open>p2_vmcoreinfo\<close> is \<open>Some\<close> of the local
  \<^verbatim>\<open>vmcoreinfo\<close> when \<^verbatim>\<open>have_vmcoreinfo\<close> is set.
\<close>

record pass2 =
  p2_prog_mappings :: "file_mapping list"
  p2_mappings_capacity :: nat
  p2_current :: nat
  p2_vmcoreinfo :: "vmcoreinfo option"
  p2_have_nt_file :: bool
  p2_have_nt_taskstruct :: bool

text \<open>The state before the second pass: the table is what the memory of \<^verbatim>\<open>*prog\<close>
  holds on entry, the capacity is 0 and no note has been seen.\<close>

definition pass2_init :: "drgn_program \<Rightarrow> pass2" where
  "pass2_init prog =
     \<lparr>p2_prog_mappings = prog_mappings prog, p2_mappings_capacity = 0,
      p2_current = 0, p2_vmcoreinfo = None, p2_have_nt_file = False,
      p2_have_nt_taskstruct = False\<rparr>"

text \<open>\<^verbatim>\<open>strncmp(s1, s2, n) == 0\<close> on two C strings.\<close>

definition strncmp_eq :: "string \<Rightarrow> string \<Rightarrow> nat \<Rightarrow> bool" where
  "strncmp_eq s1 s2 n = (take n (s1 @ [CHR 0x00]) = take n (s2 @ [CHR 0x00]))"

definition process_note :: "core_alloc \<Rightarrow> bool \<Rightarrow> elf_note \<Rightarrow> pass2 \<Rightarrow> drgn_error option \<times> pass2" where
  "process_note alloc is_64_bit note st =
     (if strncmp_eq (note_name note) ''CORE'' (n_namesz note) then
        (if n_type note = NT_FILE then
           (case parse_nt_file (ca_resize_ok alloc) (ca_malloc_ok alloc) (note_desc note)
                   is_64_bit (p2_prog_mappings st, p2_mappings_capacity st) of
              (Some err, (mappings, capacity)) \<Rightarrow>
                (Some err, st\<lparr>p2_prog_mappings := mappings, p2_mappings_capacity := capacity\<rparr>)
            | (None, (mappings, capacity)) \<Rightarrow>
                (None, st\<lparr>p2_prog_mappings := mappings, p2_mappings_capacity := capacity,
                          p2_have_nt_file := True\<rparr>))
         else if n_type note = NT_TASKSTRUCT then (None, st\<lparr>p2_have_nt_taskstruct := True\<rparr>)
         else (None, st))
      else if strncmp_eq (note_name note) ''VMCOREINFO'' (n_namesz note) then
        (case parse_vmcoreinfo (note_desc note) of
           (Some err, vmcoreinfo) \<Rightarrow> (Some err, st)
         | (None, vmcoreinfo) \<Rightarrow> (None, st\<lparr>p2_vmcoreinfo := Some vmcoreinfo\<rparr>))
      else (None, st))"





fun process_notes :: "core_alloc \<Rightarrow> bool \<Rightarrow> elf_note list \<Rightarrow> pass2 \<Rightarrow> drgn_error option \<times> pass2" where
  "process_notes alloc is_64_bit [] st = (None, st)"
| "process_notes alloc is_64_bit (note # notes) st =
     (case process_note alloc is_64_bit note st of
        (Some err, st') \<Rightarrow> (Some err, st')
      | (None, st') \<Rightarrow> process_notes alloc is_64_bit notes st')"

fun second_pass ::
  "core_file \<Rightarrow> core_alloc \<Rightarrow> core_modules \<Rightarrow> bool \<Rightarrow> bool \<Rightarrow> nat \<Rightarrow> nat
     \<Rightarrow> gelf_phdr option list \<Rightarrow> pass2 \<Rightarrow> drgn_error option \<times> pass2" where
  "second_pass file alloc mods is_64_bit have_non_zero_phys_addr num_file_segments i [] st =
     (None, st)"
| "second_pass file alloc mods is_64_bit have_non_zero_phys_addr num_file_segments i
     (None # phdrs) st = (Some DRGN_ERROR_LIBELF, st)"
| "second_pass file alloc mods is_64_bit have_non_zero_phys_addr num_file_segments i
     (Some phdr # phdrs) st =
     (if p_type phdr = PT_LOAD then
        (if p2_current st = num_file_segments
         then second_pass file alloc mods is_64_bit have_non_zero_phys_addr num_file_segments
                (Suc i) phdrs st
         else
           (case cm_add_segment mods (p_vaddr phdr)
                   (if have_non_zero_phys_addr then p_paddr phdr else - 1) (p_memsz phdr) of
              Some err \<Rightarrow> (Some err, st)
            | None \<Rightarrow>
                second_pass file alloc mods is_64_bit have_non_zero_phys_addr num_file_segments
                  (Suc i) phdrs (st\<lparr>p2_current := Suc (p2_current st)\<rparr>)))
      else if p_type phdr = PT_NOTE then
        (case cf_notes file i of
           None \<Rightarrow> (Some DRGN_ERROR_LIBELF, st)
         | Some notes \<Rightarrow>
             (case process_notes alloc is_64_bit notes st of
                (Some err, st') \<Rightarrow> (Some err, st')
              | (None, st') \<Rightarrow>
                  second_pass file alloc mods is_64_bit have_non_zero_phys_addr
                    num_file_segments (Suc i) phdrs st'))
      else second_pass file alloc mods is_64_bit have_non_zero_phys_addr num_file_segments
             (Suc i) phdrs st)"

text \<open>
  Lines 1267-1287: is the file \<^verbatim>\<open>/proc/kcore\<close>? When \<^verbatim>\<open>fstatfs\<close> fails the error is
  returned.
\<close>

definition detect_proc_kcore :: "core_file \<Rightarrow> pass2 \<Rightarrow> drgn_error + bool" where
  "detect_proc_kcore file st =
     (if p2_vmcoreinfo st \<noteq> None then Inr True
      else if p2_have_nt_taskstruct st then
        (case cf_fstatfs file of
           Inl errnum \<Rightarrow> Inl (DRGN_ERROR_OS errnum)
         | Inr f_type \<Rightarrow> Inr (f_type = 0x9fa0))
      else Inr False)"

text \<open>
  Lines 1289-1317, on the local \<^verbatim>\<open>mappings\<close>: the error, the local \<^verbatim>\<open>mappings\<close>
  afterwards, the \<^verbatim>\<open>vmcoreinfo\<close> (\<open>Some\<close> when \<^verbatim>\<open>have_vmcoreinfo\<close> is set) and the
  releases of the block.
\<close>

definition kernel_metadata ::
  "core_modules \<Rightarrow> bool \<Rightarrow> bool \<Rightarrow> pass2 \<Rightarrow> file_mapping list
     \<Rightarrow> drgn_error option \<times> file_mapping list \<times> vmcoreinfo option \<times> release list" where
  "kernel_metadata mods have_non_zero_phys_addr is_proc_kcore st mappings =
     (if p2_vmcoreinfo st \<noteq> None \<or> is_proc_kcore then
        (if p2_vmcoreinfo st = None then
           (case (if have_non_zero_phys_addr then cm_read_vmcoreinfo_from_sysfs mods
                  else cm_get_fallback_vmcoreinfo mods) of
              Inl err \<Rightarrow> (Some err, [], None, [Free_file_mappings mappings])
            | Inr vmcoreinfo \<Rightarrow> (None, [], Some vmcoreinfo, [Free_file_mappings mappings]))
         else (None, [], p2_vmcoreinfo st, [Free_file_mappings mappings]))
      else if \<not> p2_have_nt_file st then (Some DRGN_ERROR_INVALID_ARGUMENT, mappings, None, [])
      else (None, mappings, None, []))"

text \<open>\<^verbatim>\<open>open_userspace_files\<close> (lines 1015-1044): the error, the mappings with their
  \<^verbatim>\<open>elf\<close> handles as far as the loop went, and \<^verbatim>\<open>success\<close>.\<close>

fun open_userspace_files_loop ::
  "(string \<Rightarrow> drgn_error + nat) \<Rightarrow> file_mapping list \<Rightarrow> bool
     \<Rightarrow> drgn_error option \<times> file_mapping list \<times> bool" where
  "open_userspace_files_loop dwarf_index_open [] success = (None, [], success)"
| "open_userspace_files_loop dwarf_index_open (mapping # mappings) success =
     (case dwarf_index_open (fm_path mapping) of
        Inl err \<Rightarrow>
          if err = DRGN_ERROR_OS ENOENT \<or> err = DRGN_ERROR_NOT_ELF \<or>
             err = DRGN_ERROR_MISSING_DEBUG
          then (case open_userspace_files_loop dwarf_index_open mappings success of
                  (e, ms, s) \<Rightarrow> (e, mapping\<lparr>fm_elf := None\<rparr> # ms, s))
          else (Some err, mapping\<lparr>fm_elf := None\<rparr> # mappings, success)
      | Inr elf \<Rightarrow>
          (case open_userspace_files_loop dwarf_index_open mappings True of
             (e, ms, s) \<Rightarrow> (e, mapping\<lparr>fm_elf := Some elf\<rparr> # ms, s)))"

definition open_userspace_files ::
  "(string \<Rightarrow> drgn_error + nat) \<Rightarrow> file_mapping list \<Rightarrow> drgn_error option \<times> file_mapping list" where
  "open_userspace_files dwarf_index_open mappings =
     (case open_userspace_files_loop dwarf_index_open mappings False of
        (Some err, ms, success) \<Rightarrow> (Some err, ms)
      | (None, ms, success) \<Rightarrow>
          if \<not> success then (Some DRGN_ERROR_MISSING_DEBUG, ms) else (None, ms))"


text \<open>The exit labels \<^verbatim>\<open>out_dtcache\<close> to \<^verbatim>\<open>out_dindex\<close> (lines 1390-1395), in front of
  the releases \<open>rest\<close> of \<^verbatim>\<open>out_mappings\<close>.\<close>

definition out_dindex :: "nat \<Rightarrow> release list \<Rightarrow> release list" where
  "out_dindex dindex rest = Dwarf_index_destroy dindex # rest"

definition out_tindex :: "nat \<Rightarrow> nat \<Rightarrow> release list \<Rightarrow> release list" where
  "out_tindex tindex dindex rest = Type_index_destroy tindex # out_dindex dindex rest"

definition out_dtcache :: "nat \<Rightarrow> nat \<Rightarrow> nat \<Rightarrow> release list \<Rightarrow> release list" where
  "out_dtcache dtcache tindex dindex rest =
     Dwarf_type_cache_destroy dtcache # out_tindex tindex dindex rest"

text \<open>
  The exit labels \<^verbatim>\<open>out_cleanup_dtcache\<close> to \<^verbatim>\<open>out_program\<close> (lines 1380-1389): the
  entries registered so far are removed from the stack, then the program is
  deinitialised. The result is the error, the program, no hook, and the releases of
  \<^verbatim>\<open>drgn_program_deinit\<close>.
\<close>

definition out_program ::
  "drgn_error \<Rightarrow> drgn_program
     \<Rightarrow> drgn_error option \<times> drgn_program \<times> relocation_hook option \<times> release list" where
  "out_program err prog = (Some err, prog, None, drgn_program_deinit prog)"

definition out_cleanup_fd ::
  "drgn_error \<Rightarrow> drgn_program \<Rightarrow> nat
     \<Rightarrow> drgn_error option \<times> drgn_program \<times> relocation_hook option \<times> release list" where
  "out_cleanup_fd err prog fd =
     out_program err (snd (drgn_program_remove_cleanup prog cleanup_fd fd))"

definition out_cleanup_file_segments ::
  "drgn_error \<Rightarrow> drgn_program \<Rightarrow> nat \<Rightarrow> nat
     \<Rightarrow> drgn_error option \<times> drgn_program \<times> relocation_hook option \<times> release list" where
  "out_cleanup_file_segments err prog file_segments fd =
     out_cleanup_fd err (snd (drgn_program_remove_cleanup prog free_cb file_segments)) fd"

definition out_cleanup_dindex ::
  "drgn_error \<Rightarrow> drgn_program \<Rightarrow> nat \<Rightarrow> nat \<Rightarrow> nat
     \<Rightarrow> drgn_error option \<times> drgn_program \<times> relocation_hook option \<times> release list" where
  "out_cleanup_dindex err prog dindex file_segments fd =
     out_cleanup_file_segments err
       (snd (drgn_program_remove_cleanup prog cleanup_dwarf_index dindex)) file_segments fd"

definition out_cleanup_dtcache ::
  "drgn_error \<Rightarrow> drgn_program \<Rightarrow> nat \<Rightarrow> nat \<Rightarrow> nat \<Rightarrow> nat
     \<Rightarrow> drgn_error option \<times> drgn_program \<times> relocation_hook option \<times> release list" where
  "out_cleanup_dtcache err prog dtcache dindex file_segments fd =
     out_cleanup_dindex err
       (snd (drgn_program_remove_cleanup prog cleanup_dwarf_type_cache dtcache))
       dindex file_segments fd"

text \<open>
  Lines 1351-1378: the program is initialised and the cleanups are registered, the
  \<open>k\<close>-th registration allocating with \<open>ca_add_cleanup_ok alloc k\<close>. \<open>prog_ptr\<close> is the
  address of \<^verbatim>\<open>*prog\<close>, the argument of \<^verbatim>\<open>cleanup_file_mappings\<close>; \<open>mappings\<close> is the
  local table and \<open>vmcoreinfo\<close> is \<open>Some\<close> when \<^verbatim>\<open>have_vmcoreinfo\<close> is set.
\<close>

definition publish ::
  "core_alloc \<Rightarrow> nat \<Rightarrow> drgn_program \<Rightarrow> nat \<Rightarrow> nat \<Rightarrow> nat \<Rightarrow> nat \<Rightarrow> nat \<Rightarrow> nat \<Rightarrow> nat
     \<Rightarrow> file_mapping list \<Rightarrow> vmcoreinfo option
     \<Rightarrow> drgn_error option \<times> drgn_program \<times> relocation_hook option \<times> release list" where
  "publish alloc prog_ptr prog fd file_segments reader dindex tindex dtcache dsindex
     mappings vmcoreinfo =
     (case drgn_program_add_cleanup (ca_add_cleanup_ok alloc 1)
             (drgn_program_init prog reader tindex dsindex) cleanup_fd fd of
        (Some err, prog1) \<Rightarrow> out_program err prog1
      | (None, prog1) \<Rightarrow>
     (case drgn_program_add_cleanup (ca_add_cleanup_ok alloc 2) prog1 free_cb file_segments of
        (Some err, prog2) \<Rightarrow> out_cleanup_fd err prog2 fd
      | (None, prog2) \<Rightarrow>
     (case drgn_program_add_cleanup (ca_add_cleanup_ok alloc 3) prog2 cleanup_dwarf_index dindex of
        (Some err, prog3) \<Rightarrow> out_cleanup_file_segments err prog3 file_segments fd
      | (None, prog3) \<Rightarrow>
     (case drgn_program_add_cleanup (ca_add_cleanup_ok alloc 4) prog3
             cleanup_dwarf_type_cache dtcache of
        (Some err, prog4) \<Rightarrow> out_cleanup_dindex err prog4 dindex file_segments fd
      | (None, prog4) \<Rightarrow>
     (case vmcoreinfo of
        Some vi \<Rightarrow>
          (None,
           prog4\<lparr>prog_flags := prog_flags prog4 OR DRGN_PROGRAM_IS_LINUX_KERNEL,
                 prog_vmcoreinfo := vi\<rparr>,
           Some Kernel_relocation_hook, [])
      | None \<Rightarrow>
          (case drgn_program_add_cleanup (ca_add_cleanup_ok alloc 5)
                  (prog4\<lparr>prog_mappings := mappings\<rparr>) cleanup_file_mappings prog_ptr of
             (Some err, prog5) \<Rightarrow> out_cleanup_dtcache err prog5 dtcache dindex file_segments fd
           | (None, prog5) \<Rightarrow> (None, prog5, Some Userspace_relocation_hook, [])))))))"

text \<open>
  Lines 1319-1349 and the publication. \<open>pre\<close> is what the run has released so far.
\<close>

definition core_dump_debug ::
  "core_alloc \<Rightarrow> core_modules \<Rightarrow> nat \<Rightarrow> drgn_program \<Rightarrow> nat \<Rightarrow> nat \<Rightarrow> nat
     \<Rightarrow> file_mapping list \<Rightarrow> vmcoreinfo option \<Rightarrow> release list \<Rightarrow> core_result" where
  "core_dump_debug alloc mods prog_ptr prog fd reader file_segments mappings vmcoreinfo pre =
     (case cm_dindex_create mods of
        Inl err \<Rightarrow> core_fail err prog (pre @ out_mappings mappings file_segments reader None fd)
      | Inr dindex \<Rightarrow>
     (case (case vmcoreinfo of
              Some vi \<Rightarrow> (cm_open_kernel_files mods (osrelease vi), mappings)
            | None \<Rightarrow> open_userspace_files (cm_dwarf_index_open mods) mappings) of
        (Some err, ms) \<Rightarrow>
          core_fail err prog
            (pre @ out_dindex dindex (out_mappings ms file_segments reader None fd))
      | (None, ms) \<Rightarrow>
     (case cm_dindex_update mods of
        Some err \<Rightarrow>
          core_fail err prog
            (pre @ out_dindex dindex (out_mappings ms file_segments reader None fd))
      | None \<Rightarrow>
     (case cm_tindex_create mods of
        Inl err \<Rightarrow>
          core_fail err prog
            (pre @ out_dindex dindex (out_mappings ms file_segments reader None fd))
      | Inr tindex \<Rightarrow>
     (case cm_dtcache_create mods of
        Inl err \<Rightarrow>
          core_fail err prog
            (pre @ out_tindex tindex dindex (out_mappings ms file_segments reader None fd))
      | Inr dtcache \<Rightarrow>
     (case cm_add_finder mods of
        Some err \<Rightarrow>
          core_fail err prog
            (pre @ out_dtcache dtcache tindex dindex
                     (out_mappings ms file_segments reader None fd))
      | None \<Rightarrow>
     (case cm_dsindex_create mods of
        Inl err \<Rightarrow>
          core_fail err prog
            (pre @ out_dtcache dtcache tindex dindex
                     (out_mappings ms file_segments reader None fd))
      | Inr dsindex \<Rightarrow>
     (case publish alloc prog_ptr prog fd file_segments reader dindex tindex dtcache dsindex
             ms vmcoreinfo of
        (Some err, prog', hook, rel) \<Rightarrow>
          \<lparr>cr_err = Some err, cr_prog = prog', cr_hook = None,
           cr_released = pre @ rel @ out_dtcache dtcache tindex dindex
                                       (out_mappings ms file_segments reader None fd)\<rparr>
      | (None, prog', hook, rel) \<Rightarrow>
          \<lparr>cr_err = None, cr_prog = prog', cr_hook = hook, cr_released = pre\<rparr>))))))))"

text \<open>
  Lines 1175-1317: the second pass, the end of the ELF handle, the detection of the
  kernel. The local \<^verbatim>\<open>mappings\<close> and \<^verbatim>\<open>num_mappings\<close> are still as initialised
  (\<^verbatim>\<open>NULL\<close> and 0: the empty table), since the notes were parsed into the table of
  \<^verbatim>\<open>*prog\<close>; the \<^verbatim>\<open>resize_array\<close> of line 1264 leaves the empty table empty.
\<close>

definition core_dump_load ::
  "core_file \<Rightarrow> core_alloc \<Rightarrow> core_modules \<Rightarrow> nat \<Rightarrow> drgn_program \<Rightarrow> nat \<Rightarrow> nat \<Rightarrow> bool
     \<Rightarrow> nat \<Rightarrow> bool \<Rightarrow> nat \<Rightarrow> nat \<Rightarrow> core_result" where
  "core_dump_load file alloc mods prog_ptr prog fd elf is_64_bit num_file_segments
     have_non_zero_phys_addr reader file_segments =
     (case second_pass file alloc mods is_64_bit have_non_zero_phys_addr num_file_segments 0
             (cf_phdrs file) (pass2_init prog) of
        (Some err, st) \<Rightarrow>
          core_fail err (prog\<lparr>prog_mappings := p2_prog_mappings st\<rparr>)
            (out_mappings [] file_segments reader (Some elf) fd)
      | (None, st) \<Rightarrow>
          (case detect_proc_kcore file st of
             Inl err \<Rightarrow>
               core_fail err (prog\<lparr>prog_mappings := p2_prog_mappings st\<rparr>)
                 (Elf_end (Some elf) # out_mappings [] file_segments reader None fd)
           | Inr is_proc_kcore \<Rightarrow>
               (case kernel_metadata mods have_non_zero_phys_addr is_proc_kcore st [] of
                  (Some err, mappings, vmcoreinfo, rel) \<Rightarrow>
                    core_fail err (prog\<lparr>prog_mappings := p2_prog_mappings st\<rparr>)
                      (Elf_end (Some elf) # rel
                         @ out_mappings mappings file_segments reader None fd)
                | (None, mappings, vmcoreinfo, rel) \<Rightarrow>
                    core_dump_debug alloc mods prog_ptr
                      (prog\<lparr>prog_mappings := p2_prog_mappings st\<rparr>) fd reader file_segments
                      mappings vmcoreinfo (Elf_end (Some elf) # rel))))"

text \<open>
  \<^verbatim>\<open>drgn_program_init_core_dump\<close> from its entry (lines 1114-1173). \<open>prog\<close> is the memory
  of \<^verbatim>\<open>*prog\<close> on entry. When \<^verbatim>\<open>malloc_array\<close> fails the code jumps to \<^verbatim>\<open>out_reader\<close>
  with \<^verbatim>\<open>err\<close> still \<^verbatim>\<open>NULL\<close> from \<^verbatim>\<open>drgn_memory_reader_create\<close>.
\<close>

definition drgn_program_init_core_dump ::
  "core_file \<Rightarrow> core_alloc \<Rightarrow> core_modules \<Rightarrow> nat \<Rightarrow> drgn_program \<Rightarrow> core_result" where
  "drgn_program_init_core_dump file alloc mods prog_ptr prog =
     (case cf_open file of
        Inl errnum \<Rightarrow> core_fail (DRGN_ERROR_OS errnum) prog []
      | Inr fd \<Rightarrow>
     (case cf_elf_begin file of
        None \<Rightarrow> core_fail DRGN_ERROR_LIBELF prog (out_fd fd)
      | Some elf \<Rightarrow>
     (case cf_ehdr file of
        None \<Rightarrow> core_fail DRGN_ERROR_LIBELF prog (out_elf (Some elf) fd)
      | Some (e_type, is_64_bit) \<Rightarrow>
          if e_type \<noteq> ET_CORE
          then core_fail DRGN_ERROR_INVALID_ARGUMENT prog (out_elf (Some elf) fd)
          else if \<not> cf_phdrnum_ok file
          then core_fail DRGN_ERROR_LIBELF prog (out_elf (Some elf) fd)
          else
     (case first_pass (cf_phdrs file) 0 False of
        None \<Rightarrow> core_fail DRGN_ERROR_LIBELF prog (out_elf (Some elf) fd)
      | Some (num_file_segments, have_non_zero_phys_addr) \<Rightarrow>
     (case cm_reader_create mods of
        Inl err \<Rightarrow> core_fail err prog (out_elf (Some elf) fd)
      | Inr reader \<Rightarrow>
     (case ca_file_segments alloc of
        None \<Rightarrow>
          \<lparr>cr_err = None, cr_prog = prog, cr_hook = None,
           cr_released = out_reader reader (Some elf) fd\<rparr>
      | Some file_segments \<Rightarrow>
          core_dump_load file alloc mods prog_ptr prog fd elf is_64_bit num_file_segments
            have_non_zero_phys_addr reader file_segments))))))"

text \<open>
  \<^verbatim>\<open>drgn_program_from_core_dump\<close> (lines 1587-1606): the error, the program stored in
  \<^verbatim>\<open>*ret\<close> (\<open>None\<close> when nothing is stored), and the releases. \<open>prog\<close> is the content of
  the memory \<^verbatim>\<open>malloc\<close> returns and \<open>prog_ptr\<close> its address.
\<close>

definition drgn_program_from_core_dump ::
  "bool \<Rightarrow> core_file \<Rightarrow> core_alloc \<Rightarrow> core_modules \<Rightarrow> nat \<Rightarrow> drgn_program
     \<Rightarrow> drgn_error option \<times> drgn_program option \<times> release list" where
  "drgn_program_from_core_dump malloc_ok file alloc mods prog_ptr prog =
     (if \<not> malloc_ok then (Some DRGN_ERROR_NO_MEMORY, None, [])
      else
        (case cr_err (drgn_program_init_core_dump file alloc mods prog_ptr prog) of
           Some err \<Rightarrow>
             (Some err, None,
              cr_released (drgn_program_init_core_dump file alloc mods prog_ptr prog))
         | None \<Rightarrow>
             (None, Some (cr_prog (drgn_program_init_core_dump file alloc mods prog_ptr prog)),
              cr_released (drgn_program_init_core_dump file alloc mods prog_ptr prog))))"

text \<open>\<^verbatim>\<open>drgn_program_destroy\<close> (lines 1648-1654) of a program that is not \<^verbatim>\<open>NULL\<close>.\<close>

definition drgn_program_destroy :: "drgn_program \<Rightarrow> release list" where
  "drgn_program_destroy prog = drgn_program_deinit prog"

text \<open>The callbacks called through the cleanup stack among the releases of a run.\<close>

fun cleanups_run :: "release list \<Rightarrow> drgn_cleanup list" where
  "cleanups_run [] = []"
| "cleanups_run (Run_cleanup cb arg # rs) = (cb, arg) # cleanups_run rs"
| "cleanups_run (r # rs) = cleanups_run rs"

text \<open>
  What a callback does when it is called with its argument (lines 1055-1076; \<^verbatim>\<open>free\<close>
  is registered for the file segments): the release it performs, on the program
  \<open>prog\<close> behind the argument of \<^verbatim>\<open>cleanup_file_mappings\<close>.
\<close>

fun cleanup_release :: "drgn_program \<Rightarrow> drgn_cleanup \<Rightarrow> release" where
  "cleanup_release prog (cleanup_fd, arg) = Close_fd arg"
| "cleanup_release prog (free_cb, arg) = Free_file_segments arg"
| "cleanup_release prog (cleanup_dwarf_index, arg) = Dwarf_index_destroy arg"
| "cleanup_release prog (cleanup_dwarf_type_cache, arg) = Dwarf_type_cache_destroy arg"
| "cleanup_release prog (cleanup_file_mappings, arg) = Free_file_mappings (prog_mappings prog)"

text \<open>The releases of the four kinds of resources that the registrations of lines
  1352-1366 guard: the descriptor, the file segments, the DWARF index and the type
  cache.\<close>

fun guarded_release :: "release \<Rightarrow> bool" where
  "guarded_release (Close_fd fd) = True"
| "guarded_release (Free_file_segments file_segments) = True"
| "guarded_release (Dwarf_index_destroy dindex) = True"
| "guarded_release (Dwarf_type_cache_destroy dtcache) = True"
| "guarded_release r = False"


section \<open>Example inputs\<close>

text \<open>A vmlinux image (type \<^verbatim>\<open>ET_EXEC\<close>) and a kernel session with a KASLR offset.\<close>

definition example_vmlinux :: kernel_elf where
  "example_vmlinux =
     \<lparr>ke_e_type = Some ET_EXEC, ke_shdrstrndx_ok = True, ke_sections = [],
      ke_get_module_name = (\<lambda>scn. Inl DRGN_ERROR_LOOKUP),
      ke_get_symbol_section_name = (\<lambda>scn address. Inl DRGN_ERROR_LOOKUP),
      ke_find_module = (\<lambda>name. Inl DRGN_ERROR_LOOKUP),
      ke_find_section_address = (\<lambda>module name. Inl DRGN_ERROR_LOOKUP)\<rparr>"

definition example_kernel_program :: drgn_program where
  "example_kernel_program =
     \<lparr>prog_reader = 1, prog_tindex = 2, prog_sindex = 3, prog_cleanup = [],
      prog_flags = DRGN_PROGRAM_IS_LINUX_KERNEL,
      prog_vmcoreinfo = \<lparr>osrelease = ''5.4.0-test'', kaslr_offset = 0x12000000\<rparr>,
      prog_mappings = []\<rparr>"

text \<open>The 64-bit NT_FILE descriptor of the specification's scenario 1: \<open>count = 2\<close>,
  \<open>page_size = 0x1000\<close>, entries \<open>{0x400000, 0x401000, 0}\<close> and \<open>{0x401000, 0x402000, 1}\<close>, both
  with the path \<^verbatim>\<open>/bin/x\<close>.\<close>

definition nt_file_merge_desc :: string where
  "nt_file_merge_desc =
     [
      CHR 0x02, CHR 0x00, CHR 0x00, CHR 0x00, CHR 0x00, CHR 0x00, CHR 0x00, CHR 0x00,
      CHR 0x00, CHR 0x10, CHR 0x00, CHR 0x00, CHR 0x00, CHR 0x00, CHR 0x00, CHR 0x00,
      CHR 0x00, CHR 0x00, CHR 0x40, CHR 0x00, CHR 0x00, CHR 0x00, CHR 0x00, CHR 0x00,
      CHR 0x00, CHR 0x10, CHR 0x40, CHR 0x00, CHR 0x00, CHR 0x00, CHR 0x00, CHR 0x00,
      CHR 0x00, CHR 0x00, CHR 0x00, CHR 0x00, CHR 0x00, CHR 0x00, CHR 0x00, CHR 0x00,
      CHR 0x00, CHR 0x10, CHR 0x40, CHR 0x00, CHR 0x00, CHR 0x00, CHR 0x00, CHR 0x00,
      CHR 0x00, CHR 0x20, CHR 0x40, CHR 0x00, CHR 0x00, CHR 0x00, CHR 0x00, CHR 0x00,
      CHR 0x01, CHR 0x00, CHR 0x00, CHR 0x00, CHR 0x00, CHR 0x00, CHR 0x00, CHR 0x00]
     @ ''/bin/x'' @ [CHR 0x00] @ ''/bin/x'' @ [CHR 0x00]"

text \<open>A 64-bit NT_FILE descriptor with \<open>count = 2\<close>, \<open>page_size = 0x1000\<close>, the entry
  \<open>{0x400000, 0x401000, 0}\<close> with path \<^verbatim>\<open>/bin/x\<close> and the empty entry
  \<open>{0x500000, 0x500000, 0}\<close> with path \<^verbatim>\<open>/bin/y\<close>.\<close>

definition nt_file_empty_entry_desc :: string where
  "nt_file_empty_entry_desc =
     [
      CHR 0x02, CHR 0x00, CHR 0x00, CHR 0x00, CHR 0x00, CHR 0x00, CHR 0x00, CHR 0x00,
      CHR 0x00, CHR 0x10, CHR 0x00, CHR 0x00, CHR 0x00, CHR 0x00, CHR 0x00, CHR 0x00,
      CHR 0x00, CHR 0x00, CHR 0x40, CHR 0x00, CHR 0x00, CHR 0x00, CHR 0x00, CHR 0x00,
      CHR 0x00, CHR 0x10, CHR 0x40, CHR 0x00, CHR 0x00, CHR 0x00, CHR 0x00, CHR 0x00,
      CHR 0x00, CHR 0x00, CHR 0x00, CHR 0x00, CHR 0x00, CHR 0x00, CHR 0x00, CHR 0x00,
      CHR 0x00, CHR 0x00, CHR 0x50, CHR 0x00, CHR 0x00, CHR 0x00, CHR 0x00, CHR 0x00,
      CHR 0x00, CHR 0x00, CHR 0x50, CHR 0x00, CHR 0x00, CHR 0x00, CHR 0x00, CHR 0x00,
      CHR 0x00, CHR 0x00, CHR 0x00, CHR 0x00, CHR 0x00, CHR 0x00, CHR 0x00, CHR 0x00]
     @ ''/bin/x'' @ [CHR 0x00] @ ''/bin/y'' @ [CHR 0x00]"

text \<open>A 64-bit NT_FILE descriptor with the single empty entry \<open>{0x500000, 0x500000, 0}\<close>,
  path \<^verbatim>\<open>/bin/y\<close>.\<close>

definition nt_file_only_empty_entry_desc :: string where
  "nt_file_only_empty_entry_desc =
     [
      CHR 0x01, CHR 0x00, CHR 0x00, CHR 0x00, CHR 0x00, CHR 0x00, CHR 0x00, CHR 0x00,
      CHR 0x00, CHR 0x10, CHR 0x00, CHR 0x00, CHR 0x00, CHR 0x00, CHR 0x00, CHR 0x00,
      CHR 0x00, CHR 0x00, CHR 0x50, CHR 0x00, CHR 0x00, CHR 0x00, CHR 0x00, CHR 0x00,
      CHR 0x00, CHR 0x00, CHR 0x50, CHR 0x00, CHR 0x00, CHR 0x00, CHR 0x00, CHR 0x00,
      CHR 0x00, CHR 0x00, CHR 0x00, CHR 0x00, CHR 0x00, CHR 0x00, CHR 0x00, CHR 0x00]
     @ ''/bin/y'' @ [CHR 0x00]"

text \<open>A 64-bit NT_FILE descriptor with \<open>count = 3\<close>, \<open>page_size = 0x1000\<close>: the entries
  \<open>{0x400000, 0x401000, 0}\<close> with path \<^verbatim>\<open>/bin/x\<close> and \<open>{0x401000, 0x402000, 1}\<close> with
  path \<^verbatim>\<open>/bin/y\<close>, then the empty entry \<open>{0, 0, 0}\<close> with path \<^verbatim>\<open>/bin/x\<close>.\<close>

definition nt_file_unmerged_desc :: string where
  "nt_file_unmerged_desc =
     [
      CHR 0x03, CHR 0x00, CHR 0x00, CHR 0x00, CHR 0x00, CHR 0x00, CHR 0x00, CHR 0x00,
      CHR 0x00, CHR 0x10, CHR 0x00, CHR 0x00, CHR 0x00, CHR 0x00, CHR 0x00, CHR 0x00,
      CHR 0x00, CHR 0x00, CHR 0x40, CHR 0x00, CHR 0x00, CHR 0x00, CHR 0x00, CHR 0x00,
      CHR 0x00, CHR 0x10, CHR 0x40, CHR 0x00, CHR 0x00, CHR 0x00, CHR 0x00, CHR 0x00,
      CHR 0x00, CHR 0x00, CHR 0x00, CHR 0x00, CHR 0x00, CHR 0x00, CHR 0x00, CHR 0x00,
      CHR 0x00, CHR 0x10, CHR 0x40, CHR 0x00, CHR 0x00, CHR 0x00, CHR 0x00, CHR 0x00,
      CHR 0x00, CHR 0x20, CHR 0x40, CHR 0x00, CHR 0x00, CHR 0x00, CHR 0x00, CHR 0x00,
      CHR 0x01, CHR 0x00, CHR 0x00, CHR 0x00, CHR 0x00, CHR 0x00, CHR 0x00, CHR 0x00,
      CHR 0x00, CHR 0x00, CHR 0x00, CHR 0x00, CHR 0x00, CHR 0x00, CHR 0x00, CHR 0x00,
      CHR 0x00, CHR 0x00, CHR 0x00, CHR 0x00, CHR 0x00, CHR 0x00, CHR 0x00, CHR 0x00,
      CHR 0x00, CHR 0x00, CHR 0x00, CHR 0x00, CHR 0x00, CHR 0x00, CHR 0x00, CHR 0x00]
     @ ''/bin/x'' @ [CHR 0x00] @ ''/bin/y'' @ [CHR 0x00] @ ''/bin/x'' @ [CHR 0x00]"

text \<open>
  Scenario 3 of the specification: the ELF file \<open>E\<close> (handle 7) of
  \<^verbatim>\<open>/lib/libfoo.so\<close> with one \<^verbatim>\<open>PT_LOAD\<close> segment, mapped at \<open>0x7f0000\<close>.
\<close>

definition libfoo_load :: gelf_phdr where
  "libfoo_load =
     \<lparr>p_type = PT_LOAD, p_offset = 0, p_vaddr = 0x1000, p_paddr = 0, p_filesz = 0x3000,
      p_memsz = 0x3000, p_align = 0x1000\<rparr>"

definition libfoo_elf :: symbol_elf where
  "libfoo_elf = \<lparr>se_elf = 7, se_phdrnum_ok = True, se_phdrs = [Some libfoo_load]\<rparr>"

definition libfoo_mapping :: file_mapping where
  "libfoo_mapping =
     \<lparr>fm_start = 0x7f0000, fm_end = 0x7f3000, fm_file_offset = 0,
      fm_path = ''/lib/libfoo.so'', fm_elf = Some 7\<rparr>"

definition libfoo_program :: drgn_program where
  "libfoo_program =
     \<lparr>prog_reader = 1, prog_tindex = 2, prog_sindex = 3, prog_cleanup = [],
      prog_flags = 0, prog_vmcoreinfo = \<lparr>osrelease = [], kaslr_offset = 0\<rparr>,
      prog_mappings = [libfoo_mapping]\<rparr>"

definition libfoo_symbol :: drgn_symbol where
  "libfoo_symbol =
     \<lparr>sym_qualified_type = 5, sym_is_enumerator = False, sym_little_endian = True,
      sym_address = 0x2100, sym_value = 0\<rparr>"

text \<open>
  A shared library (handle 8) with a text and a data segment whose file ranges share the
  page at file offset \<open>0x2000\<close>, as the loader maps it: the text mapping covers the file
  offsets from 0 to \<open>0x3000\<close>, the data mapping those from \<open>0x2000\<close> to \<open>0x4000\<close>. The
  symbol lies in the data segment, at file offset \<open>0x2900\<close>.
\<close>

definition libbar_text :: gelf_phdr where
  "libbar_text =
     \<lparr>p_type = PT_LOAD, p_offset = 0, p_vaddr = 0, p_paddr = 0, p_filesz = 0x2800,
      p_memsz = 0x2800, p_align = 0x1000\<rparr>"

definition libbar_data :: gelf_phdr where
  "libbar_data =
     \<lparr>p_type = PT_LOAD, p_offset = 0x2800, p_vaddr = 0x4800, p_paddr = 0, p_filesz = 0x1000,
      p_memsz = 0x1000, p_align = 0x1000\<rparr>"

definition libbar_elf :: symbol_elf where
  "libbar_elf =
     \<lparr>se_elf = 8, se_phdrnum_ok = True, se_phdrs = [Some libbar_text, Some libbar_data]\<rparr>"

definition libbar_text_mapping :: file_mapping where
  "libbar_text_mapping =
     \<lparr>fm_start = 0x7f0000, fm_end = 0x7f3000, fm_file_offset = 0,
      fm_path = ''/lib/libbar.so'', fm_elf = Some 8\<rparr>"

definition libbar_data_mapping :: file_mapping where
  "libbar_data_mapping =
     \<lparr>fm_start = 0x7f4000, fm_end = 0x7f6000, fm_file_offset = 0x2000,
      fm_path = ''/lib/libbar.so'', fm_elf = Some 8\<rparr>"

definition libbar_program :: drgn_program where
  "libbar_program =
     \<lparr>prog_reader = 1, prog_tindex = 2, prog_sindex = 3, prog_cleanup = [],
      prog_flags = 0, prog_vmcoreinfo = \<lparr>osrelease = [], kaslr_offset = 0\<rparr>,
      prog_mappings = [libbar_text_mapping, libbar_data_mapping]\<rparr>"

definition libbar_symbol :: drgn_symbol where
  "libbar_symbol =
     \<lparr>sym_qualified_type = 5, sym_is_enumerator = False, sym_little_endian = True,
      sym_address = 0x4900, sym_value = 0\<rparr>"

text \<open>A target memory with the bytes \<^verbatim>\<open>h\<close>, \<^verbatim>\<open>i\<close> and NUL at the virtual addresses from
  \<open>0x1000\<close>; every other read faults.\<close>

definition example_memory :: "bool \<Rightarrow> u64 \<Rightarrow> drgn_error + char" where
  "example_memory physical address =
     (if physical then Inl DRGN_ERROR_FAULT
      else if address = 0x1000 then Inr (CHR ''h'')
      else if address = 0x1001 then Inr (CHR ''i'')
      else if address = 0x1002 then Inr (CHR 0x00)
      else Inl DRGN_ERROR_FAULT)"

text \<open>
  Core dumps for the bootstrap. Each has a \<^verbatim>\<open>PT_NOTE\<close> and a \<^verbatim>\<open>PT_LOAD\<close> program
  header; they differ in their notes. \<open>kernel_core_file\<close> is a kernel dump with an
  \<^verbatim>\<open>NT_FILE\<close> note (the descriptor of scenario 1) and a \<^verbatim>\<open>VMCOREINFO\<close> note;
  \<open>process_core_file\<close> is the dump of a process, with the \<^verbatim>\<open>NT_FILE\<close> note and an
  \<^verbatim>\<open>NT_PRSTATUS\<close> note; \<open>bare_core_file\<close> has the \<^verbatim>\<open>NT_PRSTATUS\<close> note only.
\<close>

definition core_note_phdr :: gelf_phdr where
  "core_note_phdr =
     \<lparr>p_type = PT_NOTE, p_offset = 0x200, p_vaddr = 0, p_paddr = 0, p_filesz = 0x400,
      p_memsz = 0, p_align = 4\<rparr>"

definition core_load_phdr :: gelf_phdr where
  "core_load_phdr =
     \<lparr>p_type = PT_LOAD, p_offset = 0x1000, p_vaddr = 0x400000, p_paddr = 0,
      p_filesz = 0x2000, p_memsz = 0x2000, p_align = 0x1000\<rparr>"

definition nt_file_note :: elf_note where
  "nt_file_note =
     \<lparr>n_namesz = 5, n_type = NT_FILE, note_name = ''CORE'', note_desc = nt_file_merge_desc\<rparr>"

definition nt_prstatus_note :: elf_note where
  "nt_prstatus_note = \<lparr>n_namesz = 5, n_type = 1, note_name = ''CORE'', note_desc = []\<rparr>"

definition vmcoreinfo_note :: elf_note where
  "vmcoreinfo_note =
     \<lparr>n_namesz = 11, n_type = 0, note_name = ''VMCOREINFO'',
      note_desc = ''OSRELEASE=5.4.0-test'' @ [CHR 0x0A] @
                  ''KERNELOFFSET=12000000'' @ [CHR 0x0A]\<rparr>"

definition core_file_with_notes :: "elf_note list \<Rightarrow> core_file" where
  "core_file_with_notes notes =
     \<lparr>cf_open = Inr 3, cf_elf_begin = Some 100, cf_ehdr = Some (ET_CORE, True),
      cf_phdrnum_ok = True, cf_phdrs = [Some core_note_phdr, Some core_load_phdr],
      cf_notes = (\<lambda>i. if i = 0 then Some notes else None),
      cf_fstatfs = Inr 0xEF53\<rparr>"

definition kernel_core_file :: core_file where
  "kernel_core_file = core_file_with_notes [nt_file_note, vmcoreinfo_note]"

definition process_core_file :: core_file where
  "process_core_file = core_file_with_notes [nt_prstatus_note, nt_file_note]"

definition bare_core_file :: core_file where
  "bare_core_file = core_file_with_notes [nt_prstatus_note]"





text \<open>Allocations that all succeed, except the \<open>k\<close>-th cleanup entry when \<open>k\<close> is in
  \<open>failing\<close>; and modules that all succeed, with distinct handles.\<close>

definition alloc_failing :: "nat set \<Rightarrow> core_alloc" where
  "alloc_failing failing =
     \<lparr>ca_file_segments = Some 200, ca_resize_ok = (\<lambda>c. True), ca_malloc_ok = (\<lambda>n. True),
      ca_add_cleanup_ok = (\<lambda>k. k \<notin> failing)\<rparr>"

definition modules_ok :: core_modules where
  "modules_ok =
     \<lparr>cm_reader_create = Inr 300, cm_add_segment = (\<lambda>vaddr paddr n. None),
      cm_read_vmcoreinfo_from_sysfs = Inl DRGN_ERROR_OTHER,
      cm_get_fallback_vmcoreinfo = Inl DRGN_ERROR_OTHER,
      cm_dindex_create = Inr 400, cm_open_kernel_files = (\<lambda>release. None),
      cm_dwarf_index_open = (\<lambda>path. Inr 7), cm_dindex_update = None,
      cm_tindex_create = Inr 500, cm_dtcache_create = Inr 600, cm_add_finder = None,
      cm_dsindex_create = Inr 700\<rparr>"

text \<open>The memory of a program structure that holds zeros.\<close>

definition zeroed_program :: drgn_program where
  "zeroed_program =
     \<lparr>prog_reader = 0, prog_tindex = 0, prog_sindex = 0, prog_cleanup = [],
      prog_flags = 0, prog_vmcoreinfo = \<lparr>osrelease = [], kaslr_offset = 0\<rparr>,
      prog_mappings = []\<rparr>"

text \<open>The mapping that scenario 1 of the specification yields.\<close>

definition bin_x_mapping :: file_mapping where
  "bin_x_mapping =
     \<lparr>fm_start = 0x400000, fm_end = 0x402000, fm_file_offset = 0,
      fm_path = ''/bin/x'', fm_elf = None\<rparr>"

text \<open>The cleanups registered one after the other on a program, all allocations
  succeeding.\<close>

fun register_cleanups :: "drgn_program \<Rightarrow> drgn_cleanup list \<Rightarrow> drgn_program" where
  "register_cleanups prog [] = prog"
| "register_cleanups prog ((cb, arg) # cleanups) =
     register_cleanups (snd (drgn_program_add_cleanup True prog cb arg)) cleanups"

chapter \<open>Properties\<close>

section \<open>Appending to the mapping table\<close>

text \<open>Evaluation of the loop of \<^verbatim>\<open>parse_nt_file\<close> on a count given as a numeral.\<close>

lemma parse_nt_file_loop_unfold:
  "parse_nt_file_loop resize_ok malloc_ok is_64_bit page_size (numeral k) p q tbl =
     (case read_entry is_64_bit p of
        None \<Rightarrow> (Some UNDEFINED_OUT_OF_BOUNDS, tbl)
      | Some ((mapping_start, mapping_end, file_offset), p') \<Rightarrow>
          (case read_string q of
             None \<Rightarrow> (Some DRGN_ERROR_ELF_FORMAT, tbl)
           | Some (path, q') \<Rightarrow>
               (case append_file_mapping resize_ok mapping_start mapping_end
                       (file_offset * page_size) path tbl of
                  (None, (mappings, capacity)) \<Rightarrow>
                    if mappings = [] then (Some UNDEFINED_OUT_OF_BOUNDS, (mappings, capacity))
                    else if \<not> malloc_ok (length path + 1)
                    then (Some DRGN_ERROR_NO_MEMORY, (mappings, capacity))
                    else parse_nt_file_loop resize_ok malloc_ok is_64_bit page_size
                           (pred_numeral k) p' q'
                           (butlast mappings @ [(last mappings)\<lparr>fm_path := path\<rparr>], capacity)
                | (Some err, tbl') \<Rightarrow>
                    if err \<noteq> DRGN_ERROR_STOP then (Some err, tbl')
                    else parse_nt_file_loop resize_ok malloc_ok is_64_bit page_size
                           (pred_numeral k) p' q' tbl')))"
  using parse_nt_file_loop.simps(2)
          [of resize_ok malloc_ok is_64_bit page_size "pred_numeral k" p q tbl]
  by (simp only: numeral_eq_Suc)

lemmas nt_file_step =
  read_u64_def read_uint_def read_in_bounds_def word_of_bytes_def
  read_entry_def read_string_def append_file_mapping_def

text \<open>Scenario 1 of the specification: the two adjacent entries of \<^verbatim>\<open>/bin/x\<close> are merged
  into one mapping.\<close>

lemma nt_file_merge_example:
  "parse_nt_file (\<lambda>c. True) (\<lambda>n. True) nt_file_merge_desc True ([], 0) =
     (None, ([\<lparr>fm_start = 0x400000, fm_end = 0x402000, fm_file_offset = 0,
               fm_path = ''/bin/x'', fm_elf = None\<rparr>], 1))"
proof -
  let ?loop = "parse_nt_file_loop (\<lambda>c. True) (\<lambda>n. True) True 0x1000"
  have "parse_nt_file (\<lambda>c. True) (\<lambda>n. True) nt_file_merge_desc True ([], 0) =
        ?loop 2 (drop 16 nt_file_merge_desc) (drop 64 nt_file_merge_desc) ([], 0)"
    by (simp add: nt_file_merge_desc_def parse_nt_file_def nt_file_step
             del: parse_nt_file_loop.simps)
  also have "\<dots> = ?loop 1 (drop 40 nt_file_merge_desc) (drop 71 nt_file_merge_desc)
                     ([\<lparr>fm_start = 0x400000, fm_end = 0x401000, fm_file_offset = 0,
                        fm_path = ''/bin/x'', fm_elf = None\<rparr>], 1)"
    by (subst parse_nt_file_loop_unfold)
       (simp add: nt_file_merge_desc_def nt_file_step del: One_nat_def)
  also have "\<dots> = (None, ([\<lparr>fm_start = 0x400000, fm_end = 0x402000, fm_file_offset = 0,
                                fm_path = ''/bin/x'', fm_elf = None\<rparr>], 1))"
    by (simp add: nt_file_merge_desc_def nt_file_step)
  finally show ?thesis .
qed

text \<open>The invariant of the specification is kept by \<^verbatim>\<open>append_file_mapping\<close> itself:
  whatever the call returns, a table without mergeable neighbours stays one.\<close>

lemma no_mergeable_neighbours_snoc:
  "no_mergeable_neighbours (ms @ [m]) =
     (no_mergeable_neighbours ms \<and> (ms \<noteq> [] \<longrightarrow> \<not> mergeable (last ms) m))"
  by (induction ms rule: no_mergeable_neighbours.induct) auto

lemma mergeable_update_end:
  "mergeable a (b\<lparr>fm_end := e\<rparr>) = mergeable a b"
  by (simp add: mergeable_def)

lemma append_file_mapping_keeps_invariant:
  assumes "no_mergeable_neighbours (fst tbl)"
  shows "no_mergeable_neighbours
           (fst (snd (append_file_mapping resize_ok start end' file_offset path tbl)))"
proof -
  obtain ms cap where tbl: "tbl = (ms, cap)" by (cases tbl)
  define new where
    "new = \<lparr>fm_start = start, fm_end = end', fm_file_offset = file_offset,
            fm_path = path, fm_elf = None\<rparr>"
  show ?thesis
  proof (cases "ms = []")
    case True
    then show ?thesis by (simp add: tbl append_file_mapping_def Let_def)
  next
    case False
    then obtain bs l where ms: "ms = bs @ [l]"
      by (metis append_butlast_last_id)
    from assms have inv: "no_mergeable_neighbours (bs @ [l])" by (simp add: tbl ms)
    then have bs: "no_mergeable_neighbours bs" and
      l: "bs \<noteq> [] \<longrightarrow> \<not> mergeable (last bs) l"
      by (simp_all add: no_mergeable_neighbours_snoc)
    from bs l have merged: "no_mergeable_neighbours (bs @ [l\<lparr>fm_end := end'\<rparr>])"
      by (simp add: no_mergeable_neighbours_snoc mergeable_update_end)
    have appended: "no_mergeable_neighbours ((bs @ [l]) @ [new])"
      if "\<not> (fm_end l = start \<and> fm_file_offset l + (fm_end l - fm_start l) = file_offset \<and>
               fm_path l = path)"
      using that inv
      by (subst no_mergeable_neighbours_snoc) (auto simp: mergeable_def new_def)
    show ?thesis
    proof (cases "fm_end l = start \<and>
                  fm_file_offset l + (fm_end l - fm_start l) = file_offset \<and> fm_path l = path")
      case True
      with inv merged show ?thesis
        by (auto simp: tbl ms append_file_mapping_def Let_def)
    next
      case False
      from appended [OF False] have "no_mergeable_neighbours (bs @ [l, new])" by simp
      with inv False show ?thesis
        by (auto simp: tbl ms append_file_mapping_def Let_def new_def)
    qed
  qed
qed

text \<open>
  Claim C1, evaluated where the code breaks it. The specification's scenario holds
  (\<open>nt_file_merge_example\<close>) and \<^verbatim>\<open>append_file_mapping\<close> keeps the invariant
  (\<open>append_file_mapping_keeps_invariant\<close>), but \<^verbatim>\<open>parse_nt_file\<close> stores the path of an
  empty entry in the last mapping of the table. For the descriptor with the entries
  \<open>{0x400000, 0x401000, 0}\<close> of \<^verbatim>\<open>/bin/x\<close>, \<open>{0x401000, 0x402000, 1}\<close> of \<^verbatim>\<open>/bin/y\<close> and the
  empty entry \<open>{0, 0, 0}\<close> of \<^verbatim>\<open>/bin/x\<close>, the table it produces holds two consecutive
  mappings with the same path, contiguous addresses and colinear file offsets, not
  merged.
\<close>

theorem nt_file_unmerged_neighbours:
  "parse_nt_file (\<lambda>c. True) (\<lambda>n. True) nt_file_unmerged_desc True ([], 0) =
     (None, ([\<lparr>fm_start = 0x400000, fm_end = 0x401000, fm_file_offset = 0,
               fm_path = ''/bin/x'', fm_elf = None\<rparr>,
              \<lparr>fm_start = 0x401000, fm_end = 0x402000, fm_file_offset = 0x1000,
               fm_path = ''/bin/x'', fm_elf = None\<rparr>], 2))
   \<and> \<not> no_mergeable_neighbours
         (fst (snd (parse_nt_file (\<lambda>c. True) (\<lambda>n. True) nt_file_unmerged_desc True ([], 0))))"
proof -
  let ?loop = "parse_nt_file_loop (\<lambda>c. True) (\<lambda>n. True) True 0x1000"
  let ?a = "\<lparr>fm_start = 0x400000, fm_end = 0x401000, fm_file_offset = 0,
            fm_path = ''/bin/x'', fm_elf = None\<rparr>"
  have "parse_nt_file (\<lambda>c. True) (\<lambda>n. True) nt_file_unmerged_desc True ([], 0) =
        ?loop 3 (drop 16 nt_file_unmerged_desc) (drop 88 nt_file_unmerged_desc) ([], 0)"
    by (simp add: nt_file_unmerged_desc_def parse_nt_file_def nt_file_step
             del: parse_nt_file_loop.simps)
  also have "\<dots> = ?loop 2 (drop 40 nt_file_unmerged_desc) (drop 95 nt_file_unmerged_desc)
                     ([?a], 1)"
    by (subst parse_nt_file_loop_unfold) (simp add: nt_file_unmerged_desc_def nt_file_step)
  also have "\<dots> = ?loop 1 (drop 64 nt_file_unmerged_desc) (drop 102 nt_file_unmerged_desc)
                     ([?a, \<lparr>fm_start = 0x401000, fm_end = 0x402000, fm_file_offset = 0x1000,
                            fm_path = ''/bin/y'', fm_elf = None\<rparr>], 2)"
    by (subst parse_nt_file_loop_unfold)
       (simp add: nt_file_unmerged_desc_def nt_file_step del: One_nat_def)
  also have "\<dots> = (None, ([?a, \<lparr>fm_start = 0x401000, fm_end = 0x402000,
                                   fm_file_offset = 0x1000, fm_path = ''/bin/x'',
                                   fm_elf = None\<rparr>], 2))"
    by (simp add: nt_file_unmerged_desc_def nt_file_step)
  finally have eq:
    "parse_nt_file (\<lambda>c. True) (\<lambda>n. True) nt_file_unmerged_desc True ([], 0) =
       (None, ([?a, \<lparr>fm_start = 0x401000, fm_end = 0x402000, fm_file_offset = 0x1000,
                     fm_path = ''/bin/x'', fm_elf = None\<rparr>], 2))" .
  show ?thesis
    unfolding eq by (simp add: mergeable_def)
qed

text \<open>What the loop of \<^verbatim>\<open>parse_nt_file\<close> does with an empty entry, for every table that
  holds a mapping: nothing is appended, the path of the last mapping is replaced by the
  path of the entry, and the loop goes on.\<close>

lemma parse_nt_file_loop_empty_entry:
  assumes "read_entry is_64_bit p = Some ((a, a, file_offset), p')"
    and "read_string q = Some (path, q')"
    and "mappings \<noteq> []" and "malloc_ok (length path + 1)"
  shows "parse_nt_file_loop resize_ok malloc_ok is_64_bit page_size (Suc n) p q
           (mappings, capacity) =
         parse_nt_file_loop resize_ok malloc_ok is_64_bit page_size n p' q'
           (butlast mappings @ [(last mappings)\<lparr>fm_path := path\<rparr>], capacity)"
  using assms by (simp add: append_file_mapping_def)

text \<open>
  Claim C5, evaluated where the code breaks it. An entry with equal start and end adds
  no mapping and the parse succeeds, but \<^verbatim>\<open>parse_nt_file\<close> takes the \<^verbatim>\<open>NULL\<close> that
  \<^verbatim>\<open>append_file_mapping\<close> returns for it as the sign of an appended mapping and stores
  the path of the entry in the last mapping of the table: after the entry
  \<open>{0x400000, 0x401000, 0}\<close> of \<^verbatim>\<open>/bin/x\<close>, the empty entry \<open>{0x500000, 0x500000, 0}\<close> of
  \<^verbatim>\<open>/bin/y\<close> leaves the first mapping with the path \<^verbatim>\<open>/bin/y\<close>. With an empty table the
  store is out of bounds.
\<close>

theorem nt_file_empty_entry_overwrites_path:
  "parse_nt_file (\<lambda>c. True) (\<lambda>n. True) nt_file_empty_entry_desc True ([], 0) =
     (None, ([\<lparr>fm_start = 0x400000, fm_end = 0x401000, fm_file_offset = 0,
               fm_path = ''/bin/y'', fm_elf = None\<rparr>], 1))
   \<and> fst (parse_nt_file (\<lambda>c. True) (\<lambda>n. True) nt_file_only_empty_entry_desc True ([], 0)) =
       Some UNDEFINED_OUT_OF_BOUNDS"
proof -
  let ?loop = "parse_nt_file_loop (\<lambda>c. True) (\<lambda>n. True) True 0x1000"
  have "parse_nt_file (\<lambda>c. True) (\<lambda>n. True) nt_file_empty_entry_desc True ([], 0) =
        ?loop 2 (drop 16 nt_file_empty_entry_desc) (drop 64 nt_file_empty_entry_desc) ([], 0)"
    by (simp add: nt_file_empty_entry_desc_def parse_nt_file_def nt_file_step
             del: parse_nt_file_loop.simps)
  also have "\<dots> = ?loop 1 (drop 40 nt_file_empty_entry_desc)
                     (drop 71 nt_file_empty_entry_desc)
                     ([\<lparr>fm_start = 0x400000, fm_end = 0x401000, fm_file_offset = 0,
                        fm_path = ''/bin/x'', fm_elf = None\<rparr>], 1)"
    by (subst parse_nt_file_loop_unfold)
       (simp add: nt_file_empty_entry_desc_def nt_file_step del: One_nat_def)
  also have "\<dots> = (None, ([\<lparr>fm_start = 0x400000, fm_end = 0x401000, fm_file_offset = 0,
                                fm_path = ''/bin/y'', fm_elf = None\<rparr>], 1))"
    by (simp add: nt_file_empty_entry_desc_def nt_file_step)
  finally have first:
    "parse_nt_file (\<lambda>c. True) (\<lambda>n. True) nt_file_empty_entry_desc True ([], 0) =
       (None, ([\<lparr>fm_start = 0x400000, fm_end = 0x401000, fm_file_offset = 0,
                 fm_path = ''/bin/y'', fm_elf = None\<rparr>], 1))" .
  have second:
    "fst (parse_nt_file (\<lambda>c. True) (\<lambda>n. True) nt_file_only_empty_entry_desc True ([], 0)) =
       Some UNDEFINED_OUT_OF_BOUNDS"
    by (simp add: nt_file_only_empty_entry_desc_def parse_nt_file_def nt_file_step)
  from first second show ?thesis by simp
qed

text \<open>
  Claim C6 says that an entry whose start lies above its end makes the append operation
  fail with the \<open>ELF_FORMAT\<close> kind. The code creates the error with the kind
  \<open>OTHER\<close>: at start \<open>0x2000\<close> and end \<open>0x1000\<close> the error is not \<open>ELF_FORMAT\<close>.
\<close>

theorem append_negative_length_counterexample:
  "fst (append_file_mapping (\<lambda>c. True) 0x2000 0x1000 0 ''/bin/x'' ([], 0))
     \<noteq> Some DRGN_ERROR_ELF_FORMAT"
  by (simp add: append_file_mapping_def)

text \<open>
  Claim C6, amended: for every entry whose start is strictly greater than its end,
  \<^verbatim>\<open>append_file_mapping\<close> fails with an error of kind \<open>OTHER\<close>, and the mapping table
  and its capacity are as before.
\<close>

theorem append_negative_length:
  "start > end' \<Longrightarrow>
   append_file_mapping resize_ok start end' file_offset path tbl = (Some DRGN_ERROR_OTHER, tbl)"
  by (simp add: append_file_mapping_def)

theorem append_negative_length_witness:
  "(0x2000 :: u64) > 0x1000 \<and>
   append_file_mapping (\<lambda>c. True) 0x2000 0x1000 0 ''/bin/x'' ([], 0)
     = (Some DRGN_ERROR_OTHER, ([], 0))"
proof -
  have h: "(0x2000 :: u64) > 0x1000" by simp
  show ?thesis
    using h append_negative_length [OF h, of "\<lambda>c. True" 0 "''/bin/x''" "([], 0)"] by simp
qed

text \<open>In \<^verbatim>\<open>parse_nt_file\<close> the error of such an entry ends the loop and is returned, with
  the table as the entries before it left it.\<close>

lemma parse_nt_file_loop_negative_entry:
  assumes "read_entry is_64_bit p = Some ((start, end', file_offset), p')"
    and "read_string q = Some (path, q')" and "start > end'"
  shows "parse_nt_file_loop resize_ok malloc_ok is_64_bit page_size (Suc n) p q tbl =
           (Some DRGN_ERROR_OTHER, tbl)"
  using assms by (simp add: append_file_mapping_def)

section \<open>VMCOREINFO parsing\<close>

text \<open>One turn of the loop at a line either returns an error or goes on behind the
  newline; so the loop reaches every line start unless it has returned an error.\<close>

lemma parse_vmcoreinfo_loop_step:
  assumes "line \<noteq> []" and "CHR 0x0A \<in> set line"
  shows "(\<exists>err. parse_vmcoreinfo_loop line ret = (Some err, ret)) \<or>
         (\<exists>ret'. parse_vmcoreinfo_loop line ret =
                  parse_vmcoreinfo_loop (tl (dropWhile (\<lambda>c. c \<noteq> CHR 0x0A) line)) ret')"
  using assms
  by (auto simp: parse_vmcoreinfo_loop.simps [of line ret] split: option.splits)

lemma parse_vmcoreinfo_loop_prefix:
  assumes "pre = [] \<or> last pre = CHR 0x0A"
  shows "(\<exists>err r. parse_vmcoreinfo_loop (pre @ s) ret = (Some err, r)) \<or>
         (\<exists>ret'. parse_vmcoreinfo_loop (pre @ s) ret = parse_vmcoreinfo_loop s ret')"
  using assms
proof (induction "length pre" arbitrary: pre ret rule: less_induct)
  case less
  show ?case
  proof (cases "pre = []")
    case True
    then show ?thesis by auto
  next
    case False
    with less.prems have lst: "last pre = CHR 0x0A" by simp
    with False have mem: "CHR 0x0A \<in> set pre" by (metis last_in_set)
    define pre' where "pre' = tl (dropWhile (\<lambda>c. c \<noteq> CHR 0x0A) pre)"
    from mem have ne: "dropWhile (\<lambda>c. c \<noteq> CHR 0x0A) pre \<noteq> []"
      by (simp add: dropWhile_eq_Nil_conv)
    from mem have dw: "dropWhile (\<lambda>c. c \<noteq> CHR 0x0A) (pre @ s) =
                       dropWhile (\<lambda>c. c \<noteq> CHR 0x0A) pre @ s"
      by (intro dropWhile_append1) auto
    from ne have tl_eq: "tl (dropWhile (\<lambda>c. c \<noteq> CHR 0x0A) (pre @ s)) = pre' @ s"
      by (simp add: dw pre'_def)
    have len: "length pre' < length pre"
    proof -
      have "length (dropWhile (\<lambda>c. c \<noteq> CHR 0x0A) pre) \<le> length pre"
        by (rule length_dropWhile_le)
      with ne show ?thesis by (cases "dropWhile (\<lambda>c. c \<noteq> CHR 0x0A) pre") (auto simp: pre'_def)
    qed
    have suffix: "pre' = [] \<or> last pre' = CHR 0x0A"
    proof (cases "pre' = []")
      case True then show ?thesis by simp
    next
      case False
      have "pre = takeWhile (\<lambda>c. c \<noteq> CHR 0x0A) pre @ dropWhile (\<lambda>c. c \<noteq> CHR 0x0A) pre"
        by simp
      moreover from ne have "dropWhile (\<lambda>c. c \<noteq> CHR 0x0A) pre =
                             hd (dropWhile (\<lambda>c. c \<noteq> CHR 0x0A) pre) # pre'"
        by (simp add: pre'_def)
      ultimately have "pre = takeWhile (\<lambda>c. c \<noteq> CHR 0x0A) pre
                              @ hd (dropWhile (\<lambda>c. c \<noteq> CHR 0x0A) pre) # pre'"
        by metis
      then have "last pre = last pre'" using False
        by (metis last_appendR last_ConsR list.distinct(1))
      with lst show ?thesis by simp
    qed
    from False mem have "pre @ s \<noteq> []" "CHR 0x0A \<in> set (pre @ s)" by auto
    from parse_vmcoreinfo_loop_step [OF this, of ret]
    show ?thesis
    proof
      assume "\<exists>err. parse_vmcoreinfo_loop (pre @ s) ret = (Some err, ret)"
      then show ?thesis by blast
    next
      assume "\<exists>ret'. parse_vmcoreinfo_loop (pre @ s) ret =
                parse_vmcoreinfo_loop (tl (dropWhile (\<lambda>c. c \<noteq> CHR 0x0A) (pre @ s))) ret'"
      then obtain ret' where
        step: "parse_vmcoreinfo_loop (pre @ s) ret = parse_vmcoreinfo_loop (pre' @ s) ret'"
        by (auto simp: tl_eq)
      from less.hyps [OF len suffix, of ret'] step show ?thesis by auto
    qed
  qed
qed

lemma parse_vmcoreinfo_loop_bad_kerneloffset:
  assumes "CHR 0x0A \<notin> set v"
    and "snd (snd (strtoull16 (v @ CHR 0x0A # rest))) \<or>
         fst (snd (strtoull16 (v @ CHR 0x0A # rest))) = 0 \<or>
         fst (snd (strtoull16 (v @ CHR 0x0A # rest))) \<noteq> length v"
  shows "parse_vmcoreinfo_loop (''KERNELOFFSET='' @ v @ CHR 0x0A # rest) ret =
           (Some DRGN_ERROR_OVERFLOW, ret)"
proof -
  from assms(1) have tw: "takeWhile (\<lambda>c. c \<noteq> CHR 0x0A) (v @ CHR 0x0A # rest) = v"
    by (induction v) auto
  show ?thesis
    using assms(2)
    by (subst parse_vmcoreinfo_loop.simps) (auto simp: linematch_def tw)
qed

text \<open>
  Claim C3, amended. A \<^verbatim>\<open>KERNELOFFSET\<close> value \<open>v\<close> (the bytes up to the newline) is bad
  when \<^verbatim>\<open>strtoull\<close> in base 16 reports a range error (the value is above
  \<open>2\<^sup>6\<^sup>4 - 1\<close>), converts nothing, or does not stop exactly at the newline. A descriptor
  that starts with such a line makes \<^verbatim>\<open>parse_vmcoreinfo\<close> fail with the \<open>OVERFLOW\<close>
  kind, and a descriptor that holds such a line after any complete lines makes it
  fail rather than succeed. The value \<^verbatim>\<open>FFFFFFFFFFFFFFFF\<close> is \<open>2\<^sup>6\<^sup>4 - 1\<close> and is not bad;
  \<^verbatim>\<open>FFFFFFFFFFFFFFFFF\<close>, with 17 digits, is.
\<close>

theorem parse_vmcoreinfo_bad_kerneloffset:
  "CHR 0x0A \<notin> set v \<and>
   (snd (snd (strtoull16 (v @ CHR 0x0A # rest))) \<or>
    fst (snd (strtoull16 (v @ CHR 0x0A # rest))) = 0 \<or>
    fst (snd (strtoull16 (v @ CHR 0x0A # rest))) \<noteq> length v)
   \<longrightarrow>
   parse_vmcoreinfo (''KERNELOFFSET='' @ v @ CHR 0x0A # rest) =
     (Some DRGN_ERROR_OVERFLOW, \<lparr>osrelease = [], kaslr_offset = 0\<rparr>) \<and>
   (pre = [] \<or> last pre = CHR 0x0A \<longrightarrow>
      fst (parse_vmcoreinfo (pre @ ''KERNELOFFSET='' @ v @ CHR 0x0A # rest)) \<noteq> None)"
proof (intro impI conjI)
  assume h: "CHR 0x0A \<notin> set v \<and>
   (snd (snd (strtoull16 (v @ CHR 0x0A # rest))) \<or>
    fst (snd (strtoull16 (v @ CHR 0x0A # rest))) = 0 \<or>
    fst (snd (strtoull16 (v @ CHR 0x0A # rest))) \<noteq> length v)"
  then have bad: "\<And>ret. parse_vmcoreinfo_loop (''KERNELOFFSET='' @ v @ CHR 0x0A # rest) ret =
           (Some DRGN_ERROR_OVERFLOW, ret)"
    by (intro parse_vmcoreinfo_loop_bad_kerneloffset) auto
  show "parse_vmcoreinfo (''KERNELOFFSET='' @ v @ CHR 0x0A # rest) =
     (Some DRGN_ERROR_OVERFLOW, \<lparr>osrelease = [], kaslr_offset = 0\<rparr>)"
    by (simp only: parse_vmcoreinfo_def bad) simp
  assume "pre = [] \<or> last pre = CHR 0x0A"
  from parse_vmcoreinfo_loop_prefix [OF this, of "''KERNELOFFSET='' @ v @ CHR 0x0A # rest"
         "\<lparr>osrelease = [], kaslr_offset = 0\<rparr>"]
  have "\<exists>err r. parse_vmcoreinfo_loop (pre @ ''KERNELOFFSET='' @ v @ CHR 0x0A # rest)
                  \<lparr>osrelease = [], kaslr_offset = 0\<rparr> = (Some err, r)"
    by (auto simp only: bad)
  then show "fst (parse_vmcoreinfo (pre @ ''KERNELOFFSET='' @ v @ CHR 0x0A # rest)) \<noteq> None"
    by (auto simp: parse_vmcoreinfo_def)
qed


lemmas vmcoreinfo_eval =
  parse_vmcoreinfo_def parse_vmcoreinfo_loop.simps linematch_def sizeof_osrelease_def
  strtoull16_def isspace_def has_hex_prefix_def hex_digit_def

text \<open>
  Claim C3 says that a descriptor with the line \<^verbatim>\<open>KERNELOFFSET=FFFFFFFFFFFFFFFF\<close> fails
  with \<open>OVERFLOW\<close>. The sixteen digits are \<open>2\<^sup>6\<^sup>4 - 1\<close>, which \<^verbatim>\<open>strtoull\<close> converts
  without a range error: after an \<^verbatim>\<open>OSRELEASE\<close> line the parse succeeds with that
  offset, and without one it fails with the kind \<open>OTHER\<close> for the missing release.
\<close>

theorem parse_vmcoreinfo_max_counterexample:
  "parse_vmcoreinfo (''OSRELEASE=5.4.0-test'' @ [CHR 0x0A] @
                     ''KERNELOFFSET=FFFFFFFFFFFFFFFF'' @ [CHR 0x0A]) =
     (None, \<lparr>osrelease = ''5.4.0-test'', kaslr_offset = 0xFFFFFFFFFFFFFFFF\<rparr>) \<and>
   fst (parse_vmcoreinfo (''KERNELOFFSET=FFFFFFFFFFFFFFFF'' @ [CHR 0x0A])) =
     Some DRGN_ERROR_OTHER"
  by (simp add: vmcoreinfo_eval)

theorem parse_vmcoreinfo_bad_kerneloffset_witness:
  "CHR 0x0A \<notin> set ''FFFFFFFFFFFFFFFFF'' \<and>
   snd (snd (strtoull16 (''FFFFFFFFFFFFFFFFF'' @ [CHR 0x0A]))) \<and>
   parse_vmcoreinfo (''KERNELOFFSET='' @ ''FFFFFFFFFFFFFFFFF'' @ [CHR 0x0A]) =
     (Some DRGN_ERROR_OVERFLOW, \<lparr>osrelease = [], kaslr_offset = 0\<rparr>) \<and>
   last (''OSRELEASE=5.4.0-test'' @ [CHR 0x0A]) = CHR 0x0A \<and>
   fst (parse_vmcoreinfo ((''OSRELEASE=5.4.0-test'' @ [CHR 0x0A]) @
                          ''KERNELOFFSET='' @ ''FFFFFFFFFFFFFFFFF'' @ [CHR 0x0A])) \<noteq> None \<and>
   parse_vmcoreinfo ((''OSRELEASE=5.4.0-test'' @ [CHR 0x0A]) @
                     ''KERNELOFFSET='' @ ''FFFFFFFFFFFFFFFFF'' @ [CHR 0x0A]) =
     (Some DRGN_ERROR_OVERFLOW, \<lparr>osrelease = ''5.4.0-test'', kaslr_offset = 0\<rparr>)"
proof -
  have both: "parse_vmcoreinfo ((''OSRELEASE=5.4.0-test'' @ [CHR 0x0A]) @
                     ''KERNELOFFSET='' @ ''FFFFFFFFFFFFFFFFF'' @ [CHR 0x0A]) =
     (Some DRGN_ERROR_OVERFLOW, \<lparr>osrelease = ''5.4.0-test'', kaslr_offset = 0\<rparr>)"
    by (simp add: vmcoreinfo_eval)
  have nl: "CHR 0x0A \<notin> set ''FFFFFFFFFFFFFFFFF''" by simp
  have erange: "snd (snd (strtoull16 (''FFFFFFFFFFFFFFFFF'' @ [CHR 0x0A])))"
    by (simp add: strtoull16_def isspace_def has_hex_prefix_def hex_digit_def)
  have lst: "last (''OSRELEASE=5.4.0-test'' @ [CHR 0x0A]) = CHR 0x0A" by simp
  from nl erange lst
    parse_vmcoreinfo_bad_kerneloffset
      [of "''FFFFFFFFFFFFFFFFF''" "[]" "''OSRELEASE=5.4.0-test'' @ [CHR 0x0A]"]
  have "parse_vmcoreinfo (''KERNELOFFSET='' @ ''FFFFFFFFFFFFFFFFF'' @ [CHR 0x0A]) =
          (Some DRGN_ERROR_OVERFLOW, \<lparr>osrelease = [], kaslr_offset = 0\<rparr>) \<and>
        fst (parse_vmcoreinfo ((''OSRELEASE=5.4.0-test'' @ [CHR 0x0A]) @
               ''KERNELOFFSET='' @ ''FFFFFFFFFFFFFFFFF'' @ [CHR 0x0A])) \<noteq> None"
    by simp
  with nl erange lst both show ?thesis by simp
qed

section \<open>Relocation\<close>

lemma find_segment_offset_first:
  "\<forall>q\<in>set before. \<not> segment_contains q address \<Longrightarrow> segment_contains p address \<Longrightarrow>
   find_segment_offset (map Some before @ Some p # after) address =
     Inr (p_offset p + address - p_vaddr p)"
  by (induction before) simp_all

lemma find_segment_offset_none:
  "\<forall>q\<in>set ps. \<not> segment_contains q address \<Longrightarrow>
   find_segment_offset (map Some ps) address = Inl DRGN_ERROR_LOOKUP"
  by (induction ps) simp_all

lemma find_mapping_address_first:
  "\<forall>x\<in>set before. \<not> mapping_contains x elf file_offset \<Longrightarrow>
   mapping_contains m elf file_offset \<Longrightarrow>
   find_mapping_address (before @ m # after) elf file_offset =
     Inr (fm_start m + file_offset - fm_file_offset m)"
  by (induction before) simp_all

lemma find_mapping_address_none:
  "\<forall>x\<in>set ms. \<not> mapping_contains x elf file_offset \<Longrightarrow>
   find_mapping_address ms elf file_offset = Inl DRGN_ERROR_LOOKUP"
  by (induction ms) simp_all

text \<open>
  Claim C2 says that whenever the address lies in a \<^verbatim>\<open>PT_LOAD\<close> segment \<open>p\<close> and some
  mapping \<open>m\<close> of the ELF file contains the file offset, the relocated address is
  computed from \<open>m\<close>. The code takes the first mapping of the table that contains the
  offset. For the library whose text and data mappings share a page of the file, the
  data mapping contains the file offset \<open>0x2900\<close> of the symbol and the claim gives
  \<open>0x7f4900\<close>; the hook finds the text mapping first and returns \<open>0x7f2900\<close>.
\<close>

theorem userspace_relocation_counterexample:
  "Some libbar_data \<in> set (se_phdrs libbar_elf) \<and>
   segment_contains libbar_data (sym_address libbar_symbol) \<and>
   libbar_data_mapping \<in> set (prog_mappings libbar_program) \<and>
   mapping_contains libbar_data_mapping (se_elf libbar_elf)
     (p_offset libbar_data + sym_address libbar_symbol - p_vaddr libbar_data) \<and>
   fm_start libbar_data_mapping
     + (p_offset libbar_data + sym_address libbar_symbol - p_vaddr libbar_data)
     - fm_file_offset libbar_data_mapping = 0x7f4900 \<and>
   userspace_relocation_hook libbar_program libbar_elf libbar_symbol =
     (None, libbar_symbol\<lparr>sym_address := 0x7f2900\<rparr>) \<and>
   sym_address (snd (userspace_relocation_hook libbar_program libbar_elf libbar_symbol)) \<noteq>
     fm_start libbar_data_mapping
       + (p_offset libbar_data + sym_address libbar_symbol - p_vaddr libbar_data)
       - fm_file_offset libbar_data_mapping"
  by (simp add: libbar_elf_def libbar_data_def libbar_text_def libbar_symbol_def
        libbar_program_def libbar_data_mapping_def libbar_text_mapping_def
        segment_contains_def mapping_contains_def userspace_relocation_hook_def PT_LOAD_def)

text \<open>
  Claim C2, amended: where libelf returns the program headers, if \<open>p\<close> is the first
  \<^verbatim>\<open>PT_LOAD\<close> program header, in header order, that contains the DWARF address of the
  symbol, and \<open>m\<close> is the first mapping of the table, in table order, whose ELF handle is
  that of the symbol and whose file range contains the file offset
  \<open>p_offset p + address - p_vaddr p\<close>, then the hook succeeds and changes only the
  address, to \<open>fm_start m + (p_offset p + address - p_vaddr p) - fm_file_offset m\<close> in
  64-bit arithmetic. If no \<^verbatim>\<open>PT_LOAD\<close> header contains the address, or no mapping of
  that ELF file contains the file offset, the hook fails with \<open>LOOKUP\<close> and leaves the
  symbol as it was. In scenario 3 of the specification the result is \<open>0x7f1100\<close>.
\<close>

theorem userspace_relocation_first_match:
  "se_phdrnum_ok elf \<longrightarrow>
   (se_phdrs elf = map Some before @ Some p # after \<and>
    (\<forall>q\<in>set before. \<not> segment_contains q (sym_address symb)) \<and>
    segment_contains p (sym_address symb) \<and>
    prog_mappings prog = mbefore @ m # mafter \<and>
    (\<forall>x\<in>set mbefore. \<not> mapping_contains x (se_elf elf)
                          (p_offset p + sym_address symb - p_vaddr p)) \<and>
    mapping_contains m (se_elf elf) (p_offset p + sym_address symb - p_vaddr p)
    \<longrightarrow> userspace_relocation_hook prog elf symb =
          (None, symb\<lparr>sym_address :=
                   fm_start m + (p_offset p + sym_address symb - p_vaddr p)
                     - fm_file_offset m\<rparr>)) \<and>
   (se_phdrs elf = map Some ps \<and> (\<forall>q\<in>set ps. \<not> segment_contains q (sym_address symb))
    \<longrightarrow> userspace_relocation_hook prog elf symb = (Some DRGN_ERROR_LOOKUP, symb)) \<and>
   (se_phdrs elf = map Some before @ Some p # after \<and>
    (\<forall>q\<in>set before. \<not> segment_contains q (sym_address symb)) \<and>
    segment_contains p (sym_address symb) \<and>
    (\<forall>x\<in>set (prog_mappings prog). \<not> mapping_contains x (se_elf elf)
                          (p_offset p + sym_address symb - p_vaddr p))
    \<longrightarrow> userspace_relocation_hook prog elf symb = (Some DRGN_ERROR_LOOKUP, symb))"
  by (simp add: userspace_relocation_hook_def find_segment_offset_first
        find_segment_offset_none find_mapping_address_first find_mapping_address_none)

theorem userspace_relocation_first_match_witness:
  "se_phdrnum_ok libfoo_elf \<and>
   se_phdrs libfoo_elf = map Some [] @ Some libfoo_load # [] \<and>
   segment_contains libfoo_load (sym_address libfoo_symbol) \<and>
   prog_mappings libfoo_program = [] @ libfoo_mapping # [] \<and>
   mapping_contains libfoo_mapping (se_elf libfoo_elf)
     (p_offset libfoo_load + sym_address libfoo_symbol - p_vaddr libfoo_load) \<and>
   userspace_relocation_hook libfoo_program libfoo_elf libfoo_symbol =
     (None, libfoo_symbol\<lparr>sym_address := 0x7f1100\<rparr>) \<and>
   userspace_relocation_hook libfoo_program libfoo_elf (libfoo_symbol\<lparr>sym_address := 0x5000\<rparr>) =
     (Some DRGN_ERROR_LOOKUP, libfoo_symbol\<lparr>sym_address := 0x5000\<rparr>) \<and>
   userspace_relocation_hook (libfoo_program\<lparr>prog_mappings := []\<rparr>) libfoo_elf libfoo_symbol =
     (Some DRGN_ERROR_LOOKUP, libfoo_symbol)"
proof -
  have ok: "se_phdrnum_ok libfoo_elf" by (simp add: libfoo_elf_def)
  have phdrs: "se_phdrs libfoo_elf = map Some [] @ Some libfoo_load # []"
    by (simp add: libfoo_elf_def)
  have seg: "segment_contains libfoo_load (sym_address libfoo_symbol)"
    by (simp add: segment_contains_def libfoo_load_def libfoo_symbol_def)
  have maps: "prog_mappings libfoo_program = [] @ libfoo_mapping # []"
    by (simp add: libfoo_program_def)
  have mc: "mapping_contains libfoo_mapping (se_elf libfoo_elf)
     (p_offset libfoo_load + sym_address libfoo_symbol - p_vaddr libfoo_load)"
    by (simp add: mapping_contains_def libfoo_mapping_def libfoo_elf_def libfoo_load_def
          libfoo_symbol_def)
  have addr: "fm_start libfoo_mapping
     + (p_offset libfoo_load + sym_address libfoo_symbol - p_vaddr libfoo_load)
     - fm_file_offset libfoo_mapping = 0x7f1100"
    by (simp add: libfoo_mapping_def libfoo_load_def libfoo_symbol_def)
  have one: "userspace_relocation_hook libfoo_program libfoo_elf libfoo_symbol =
     (None, libfoo_symbol\<lparr>sym_address := 0x7f1100\<rparr>)"
    using userspace_relocation_first_match
            [of libfoo_elf "[]" libfoo_load "[]" libfoo_symbol libfoo_program "[]"
                libfoo_mapping "[]" "[]"]
          ok phdrs seg maps mc addr
    by simp
  have noseg: "\<not> segment_contains libfoo_load 0x5000"
    by (simp add: segment_contains_def libfoo_load_def)
  have two: "userspace_relocation_hook libfoo_program libfoo_elf
               (libfoo_symbol\<lparr>sym_address := 0x5000\<rparr>) =
     (Some DRGN_ERROR_LOOKUP, libfoo_symbol\<lparr>sym_address := 0x5000\<rparr>)"
    using userspace_relocation_first_match
            [of libfoo_elf "[]" libfoo_load "[]" "libfoo_symbol\<lparr>sym_address := 0x5000\<rparr>"
                libfoo_program "[]" libfoo_mapping "[]" "[libfoo_load]"]
          ok noseg
    by (simp add: libfoo_elf_def)
  have three: "userspace_relocation_hook (libfoo_program\<lparr>prog_mappings := []\<rparr>) libfoo_elf
                 libfoo_symbol = (Some DRGN_ERROR_LOOKUP, libfoo_symbol)"
    using userspace_relocation_first_match
            [of libfoo_elf "[]" libfoo_load "[]" libfoo_symbol
                "libfoo_program\<lparr>prog_mappings := []\<rparr>" "[]" libfoo_mapping "[]" "[]"]
          ok phdrs seg
    by simp
  from ok phdrs seg maps mc one two three show ?thesis by simp
qed

text \<open>
  Claim C8: for a symbol of a kernel session whose debugging ELF file has type
  \<^verbatim>\<open>ET_EXEC\<close> (vmlinux), the relocation hook succeeds and returns the symbol with its
  address replaced by the DWARF address plus the KASLR offset of the session; no other
  field of the symbol changes.
\<close>

theorem kernel_relocation_vmlinux:
  "ke_e_type elf = Some ET_EXEC \<Longrightarrow>
   kernel_relocation_hook prog elf symb =
     (None, symb\<lparr>sym_address := sym_address symb + kaslr_offset (prog_vmcoreinfo prog)\<rparr>)"
  by (simp add: kernel_relocation_hook_def)

theorem kernel_relocation_vmlinux_witness:
  "ke_e_type example_vmlinux = Some ET_EXEC \<and>
   kernel_relocation_hook example_kernel_program example_vmlinux
     \<lparr>sym_qualified_type = 5, sym_is_enumerator = False, sym_little_endian = True,
      sym_address = 0xffffffff81000000, sym_value = 0\<rparr> =
   (None, \<lparr>sym_qualified_type = 5, sym_is_enumerator = False, sym_little_endian = True,
           sym_address = 0xffffffff93000000, sym_value = 0\<rparr>)"
proof -
  have h: "ke_e_type example_vmlinux = Some ET_EXEC"
    by (simp add: example_vmlinux_def)
  show ?thesis
    using h kernel_relocation_vmlinux [OF h, of example_kernel_program]
    by (simp add: example_kernel_program_def)
qed

section \<open>Reading a C string\<close>

text \<open>The loop, from any buffer \<open>str\<close> that holds the bytes read so far.\<close>

lemma read_c_string_loop_correct:
  assumes resize: "\<And>c. resize_ok c"
    and reads: "\<And>i. i < min (Suc L) max_size \<Longrightarrow> \<exists>c. read_byte (a + of_nat i) = Inr c"
    and nonzero: "\<And>i. i < min L max_size \<Longrightarrow> read_byte (a + of_nat i) \<noteq> Inr (CHR 0x00)"
    and nul: "L < max_size \<Longrightarrow> read_byte (a + of_nat L) = Inr (CHR 0x00)"
    and len: "length str \<le> min L max_size"
  shows "\<exists>s. read_c_string_loop resize_ok read_byte max_size (a + of_nat (length str)) str capacity
              = Inr (str @ s @ [CHR 0x00]) \<and>
             length (str @ s) = min L max_size \<and>
             CHR 0x00 \<notin> set s \<and>
             (\<forall>i < length s. read_byte (a + of_nat (length str + i)) = Inr (s ! i))"
  using len
proof (induction "min L max_size - length str" arbitrary: str capacity)
  case 0
  then have eq: "length str = min L max_size" by simp
  show ?case
  proof (cases "L < max_size")
    case True
    with eq have l: "length str = L" by simp
    with True nul have "read_byte (a + of_nat (length str)) = Inr (CHR 0x00)" by simp
    with True l show ?thesis
      by (subst read_c_string_loop.simps) (simp add: resize)
  next
    case False
    with eq have m: "length str = max_size" "min L max_size = max_size" by simp_all
    then show ?thesis
      by (subst read_c_string_loop.simps) (simp add: resize)
  qed
next
  case (Suc n)
  from Suc.hyps(2) have lt: "length str < min L max_size" by arith
  from reads [of "length str"] lt obtain c where c: "read_byte (a + of_nat (length str)) = Inr c"
    by auto
  from nonzero [of "length str"] lt c have c0: "c \<noteq> CHR 0x00" by auto
  have addr: "a + of_nat (length str) + 1 = a + of_nat (length (str @ [c]))"
    by simp
  from Suc.hyps(2) have n: "n = min L max_size - length (str @ [c])" by simp
  from lt have le: "length (str @ [c]) \<le> min L max_size" by simp
  from Suc.hyps(1) [OF n le, of "if length str \<ge> capacity then capacity * 2 else capacity"]
  obtain s where
    s: "read_c_string_loop resize_ok read_byte max_size (a + of_nat (length (str @ [c])))
          (str @ [c]) (if length str \<ge> capacity then capacity * 2 else capacity)
        = Inr ((str @ [c]) @ s @ [CHR 0x00])"
    and sl: "length ((str @ [c]) @ s) = min L max_size"
    and s0: "CHR 0x00 \<notin> set s"
    and sb: "\<forall>i < length s. read_byte (a + of_nat (length (str @ [c]) + i)) = Inr (s ! i)"
    by blast
  have step: "read_c_string_loop resize_ok read_byte max_size (a + of_nat (length str)) str capacity
        = Inr (str @ (c # s) @ [CHR 0x00])"
    using lt c c0 s
    by (subst read_c_string_loop.simps) (simp add: resize addr del: of_nat_Suc)
  have bytes: "\<forall>i < length (c # s). read_byte (a + of_nat (length str + i)) = Inr ((c # s) ! i)"
  proof (intro allI impI)
    fix i assume "i < length (c # s)"
    show "read_byte (a + of_nat (length str + i)) = Inr ((c # s) ! i)"
    proof (cases i)
      case 0
      with c show ?thesis by simp
    next
      case (Suc j)
      with \<open>i < length (c # s)\<close> have "j < length s" by simp
      with sb have "read_byte (a + of_nat (length (str @ [c]) + j)) = Inr (s ! j)" by blast
      with Suc show ?thesis by simp
    qed
  qed
  from step sl s0 c0 bytes show ?case
    by (intro exI [of _ "c # s"]) auto
qed


text \<open>
  Claim C9: let the target memory at \<open>a\<close> have its first NUL byte at offset \<open>L\<close>, every
  read of the range succeeding: the reads at the offsets below \<open>min (L + 1) max_size\<close>
  succeed, those below \<open>min L max_size\<close> yield no NUL, and the one at \<open>L\<close> yields NUL
  when \<open>L < max_size\<close>. Then, the allocations succeeding,
  \<^verbatim>\<open>drgn_program_read_c_string\<close> returns a buffer \<open>s\<close> followed by one NUL, where \<open>s\<close>
  holds the \<open>min L max_size\<close> bytes of the target from \<open>a\<close> on and no NUL. When no NUL
  occurs within \<open>max_size\<close> bytes (\<open>max_size \<le> L\<close>) these are exactly \<open>max_size\<close> bytes
  followed by the terminating NUL.
\<close>

theorem read_c_string_length:
  assumes "malloc_ok" and "\<forall>c. resize_ok c"
    and "\<forall>i < min (Suc L) max_size. \<exists>c. read_byte physical (a + of_nat i) = Inr c"
    and "\<forall>i < min L max_size. read_byte physical (a + of_nat i) \<noteq> Inr (CHR 0x00)"
    and "L < max_size \<longrightarrow> read_byte physical (a + of_nat L) = Inr (CHR 0x00)"
  shows "\<exists>s. drgn_program_read_c_string malloc_ok resize_ok read_byte a physical max_size
               = Inr (s @ [CHR 0x00]) \<and>
             length s = min L max_size \<and>
             CHR 0x00 \<notin> set s \<and>
             (\<forall>i < length s. read_byte physical (a + of_nat i) = Inr (s ! i))"
proof -
  have "\<exists>s. read_c_string_loop resize_ok (read_byte physical) max_size
               (a + of_nat (length ([] :: string))) [] 1
              = Inr ([] @ s @ [CHR 0x00]) \<and>
             length ([] @ s) = min L max_size \<and>
             CHR 0x00 \<notin> set s \<and>
             (\<forall>i < length s. read_byte physical (a + of_nat (length ([] :: string) + i))
                                = Inr (s ! i))"
    using assms by (intro read_c_string_loop_correct) auto
  with assms(1) show ?thesis
    by (simp add: drgn_program_read_c_string_def)
qed

theorem read_c_string_length_witness:
  "example_memory False 0x1000 = Inr (CHR ''h'') \<and>
   example_memory False 0x1001 = Inr (CHR ''i'') \<and>
   example_memory False 0x1002 = Inr (CHR 0x00) \<and>
   (\<exists>s. drgn_program_read_c_string True (\<lambda>c. True) example_memory 0x1000 False 10
          = Inr (s @ [CHR 0x00]) \<and> length s = 2 \<and> CHR 0x00 \<notin> set s) \<and>
   (\<exists>s. drgn_program_read_c_string True (\<lambda>c. True) example_memory 0x1000 False 1
          = Inr (s @ [CHR 0x00]) \<and> length s = 1 \<and> CHR 0x00 \<notin> set s)"
proof -
  have lt3: "\<And>i::nat. i < 3 \<longleftrightarrow> i = 0 \<or> i = 1 \<or> i = 2" by auto
  have lt2: "\<And>i::nat. i < 2 \<longleftrightarrow> i = 0 \<or> i = 1" by auto
  have b: "example_memory False 0x1000 = Inr (CHR ''h'')"
    "example_memory False 0x1001 = Inr (CHR ''i'')"
    "example_memory False 0x1002 = Inr (CHR 0x00)"
    by (simp_all add: example_memory_def)
  have r: "\<forall>i < min (Suc 2) 10. \<exists>c. example_memory False (0x1000 + of_nat i) = Inr c"
    by (auto simp: lt3 example_memory_def)
  have r1: "\<forall>i < min (Suc 2) 1. \<exists>c. example_memory False (0x1000 + of_nat i) = Inr c"
    by (auto simp: example_memory_def)
  have nz: "\<forall>i < min 2 10. example_memory False (0x1000 + of_nat i) \<noteq> Inr (CHR 0x00)"
    by (auto simp: lt2 example_memory_def)
  have nz1: "\<forall>i < min 2 1. example_memory False (0x1000 + of_nat i) \<noteq> Inr (CHR 0x00)"
    by (auto simp: example_memory_def)
  have z: "example_memory False (0x1000 + of_nat 2) = Inr (CHR 0x00)"
    by (simp add: example_memory_def)
  have one: "\<exists>s. drgn_program_read_c_string True (\<lambda>c. True) example_memory 0x1000 False 10
          = Inr (s @ [CHR 0x00]) \<and> length s = 2 \<and> CHR 0x00 \<notin> set s"
    using read_c_string_length [of True "\<lambda>c. True" 2 10 example_memory False "0x1000"] r nz z
    by auto
  have two: "\<exists>s. drgn_program_read_c_string True (\<lambda>c. True) example_memory 0x1000 False 1
          = Inr (s @ [CHR 0x00]) \<and> length s = 1 \<and> CHR 0x00 \<notin> set s"
    using read_c_string_length [of True "\<lambda>c. True" 2 1 example_memory False "0x1000"] r1 nz1
    by auto
  from b one two show ?thesis by blast
qed

section \<open>Bootstrapping from a core dump\<close>

text \<open>The runs of the example dumps, evaluated.\<close>

lemmas core_examples =
  core_file_with_notes_def core_note_phdr_def core_load_phdr_def alloc_failing_def
  modules_ok_def zeroed_program_def

lemma vmcoreinfo_note_parse:
  "parse_vmcoreinfo (note_desc vmcoreinfo_note) =
     (None, \<lparr>osrelease = ''5.4.0-test'', kaslr_offset = 0x12000000\<rparr>)"
  by (simp add: vmcoreinfo_note_def vmcoreinfo_eval)

lemma nt_file_note_parse:
  "parse_nt_file (\<lambda>c. True) (\<lambda>n. True) (note_desc nt_file_note) True ([], 0) =
     (None, ([bin_x_mapping], 1))"
  by (simp add: nt_file_note_def nt_file_merge_example bin_x_mapping_def)


lemma nt_file_note_fields:
  "n_namesz nt_file_note = 5" "n_type nt_file_note = NT_FILE" "note_name nt_file_note = ''CORE''"
  by (simp_all add: nt_file_note_def)

lemma vmcoreinfo_note_fields:
  "n_namesz vmcoreinfo_note = 11" "n_type vmcoreinfo_note = 0"
  "note_name vmcoreinfo_note = ''VMCOREINFO''"
  by (simp_all add: vmcoreinfo_note_def)

lemma nt_prstatus_note_fields:
  "n_namesz nt_prstatus_note = 5" "n_type nt_prstatus_note = 1"
  "note_name nt_prstatus_note = ''CORE''"
  by (simp_all add: nt_prstatus_note_def)

lemmas note_eval =
  process_note_def strncmp_eq_def nt_file_note_fields vmcoreinfo_note_fields
  nt_prstatus_note_fields nt_file_note_parse vmcoreinfo_note_parse NT_FILE_def
  NT_TASKSTRUCT_def PT_LOAD_def PT_NOTE_def pass2_init_def

lemma kernel_second_pass:
  "second_pass (core_file_with_notes [nt_file_note, vmcoreinfo_note]) (alloc_failing F)
     modules_ok True False (Suc 0) 0
     (cf_phdrs (core_file_with_notes [nt_file_note, vmcoreinfo_note]))
     (pass2_init zeroed_program) =
   (None, \<lparr>p2_prog_mappings = [bin_x_mapping], p2_mappings_capacity = 1, p2_current = 1,
           p2_vmcoreinfo = Some \<lparr>osrelease = ''5.4.0-test'', kaslr_offset = 0x12000000\<rparr>,
           p2_have_nt_file = True, p2_have_nt_taskstruct = False\<rparr>)"
  by (simp add: core_examples note_eval)

lemma process_second_pass:
  "second_pass (core_file_with_notes [nt_prstatus_note, nt_file_note]) (alloc_failing F)
     modules_ok True False (Suc 0) 0
     (cf_phdrs (core_file_with_notes [nt_prstatus_note, nt_file_note]))
     (pass2_init zeroed_program) =
   (None, \<lparr>p2_prog_mappings = [bin_x_mapping], p2_mappings_capacity = 1, p2_current = 1,
           p2_vmcoreinfo = None, p2_have_nt_file = True, p2_have_nt_taskstruct = False\<rparr>)"
  by (simp add: core_examples note_eval)

lemma bare_second_pass:
  "second_pass (core_file_with_notes [nt_prstatus_note]) (alloc_failing F)
     modules_ok True False (Suc 0) 0
     (cf_phdrs (core_file_with_notes [nt_prstatus_note]))
     (pass2_init zeroed_program) =
   (None, \<lparr>p2_prog_mappings = [], p2_mappings_capacity = 0, p2_current = 1,
           p2_vmcoreinfo = None, p2_have_nt_file = False, p2_have_nt_taskstruct = False\<rparr>)"
  by (simp add: core_examples note_eval)

lemma example_first_pass:
  "first_pass (cf_phdrs (core_file_with_notes notes)) 0 False = Some (Suc 0, False)"
  by (simp add: core_examples PT_LOAD_def PT_NOTE_def)

lemmas unwind_eval =
  out_fd_def out_elf_def out_reader_def out_mappings_def out_dindex_def out_tindex_def
  out_dtcache_def out_program_def out_cleanup_fd_def out_cleanup_file_segments_def
  out_cleanup_dindex_def out_cleanup_dtcache_def drgn_program_deinit_def
  drgn_program_remove_cleanup_def drgn_program_add_cleanup_def drgn_program_init_def

lemma core_file_with_notes_fields:
  "cf_open (core_file_with_notes notes) = Inr 3"
  "cf_elf_begin (core_file_with_notes notes) = Some 100"
  "cf_ehdr (core_file_with_notes notes) = Some (ET_CORE, True)"
  "cf_phdrnum_ok (core_file_with_notes notes)"
  "cf_fstatfs (core_file_with_notes notes) = Inr 0xEF53"
  by (simp_all add: core_file_with_notes_def)

lemma alloc_failing_fields:
  "ca_file_segments (alloc_failing F) = Some 200"
  "ca_add_cleanup_ok (alloc_failing F) k = (k \<notin> F)"
  by (simp_all add: alloc_failing_def)

lemma modules_ok_fields:
  "cm_reader_create modules_ok = Inr 300"
  "cm_dindex_create modules_ok = Inr 400"
  "cm_open_kernel_files modules_ok release = None"
  "cm_dwarf_index_open modules_ok path = Inr 7"
  "cm_dindex_update modules_ok = None"
  "cm_tindex_create modules_ok = Inr 500"
  "cm_dtcache_create modules_ok = Inr 600"
  "cm_add_finder modules_ok = None"
  "cm_dsindex_create modules_ok = Inr 700"
  by (simp_all add: modules_ok_def)

lemmas bootstrap_eval =
  drgn_program_init_core_dump_def core_dump_load_def detect_proc_kcore_def
  kernel_metadata_def core_dump_debug_def publish_def core_fail_def
  open_userspace_files_def core_file_with_notes_fields example_first_pass
  alloc_failing_fields modules_ok_fields unwind_eval
  kernel_second_pass process_second_pass bare_second_pass
  kernel_core_file_def process_core_file_def bare_core_file_def

lemma zeroed_program_mappings:
  "zeroed_program\<lparr>prog_mappings := ms\<rparr> =
     \<lparr>prog_reader = 0, prog_tindex = 0, prog_sindex = 0, prog_cleanup = [],
      prog_flags = 0, prog_vmcoreinfo = \<lparr>osrelease = [], kaslr_offset = 0\<rparr>,
      prog_mappings = ms\<rparr>"
  by (simp add: zeroed_program_def)

lemma kernel_bootstrap:
  "drgn_program_init_core_dump kernel_core_file (alloc_failing {}) modules_ok 900 zeroed_program =
     \<lparr>cr_err = None,
      cr_prog = \<lparr>prog_reader = 300, prog_tindex = 500, prog_sindex = 700,
                 prog_cleanup = [(cleanup_dwarf_type_cache, 600), (cleanup_dwarf_index, 400),
                                 (free_cb, 200), (cleanup_fd, 3)],
                 prog_flags = DRGN_PROGRAM_IS_LINUX_KERNEL,
                 prog_vmcoreinfo = \<lparr>osrelease = ''5.4.0-test'', kaslr_offset = 0x12000000\<rparr>,
                 prog_mappings = [bin_x_mapping]\<rparr>,
      cr_hook = Some Kernel_relocation_hook,
      cr_released = [Elf_end (Some 100), Free_file_mappings []]\<rparr>"
  by (simp add: bootstrap_eval zeroed_program_mappings DRGN_PROGRAM_IS_LINUX_KERNEL_def)

lemma kernel_bootstrap_fail3:
  "drgn_program_init_core_dump kernel_core_file (alloc_failing {3}) modules_ok 900 zeroed_program =
     \<lparr>cr_err = Some DRGN_ERROR_NO_MEMORY,
      cr_prog = \<lparr>prog_reader = 300, prog_tindex = 500, prog_sindex = 700,
                 prog_cleanup = [],
                 prog_flags = 0,
                 prog_vmcoreinfo = \<lparr>osrelease = [], kaslr_offset = 0\<rparr>,
                 prog_mappings = [bin_x_mapping]\<rparr>,
      cr_hook = None,
      cr_released =
        [Elf_end (Some 100), Free_file_mappings [],
         Symbol_index_destroy 700, Type_index_destroy 500, Memory_reader_destroy 300,
         Dwarf_type_cache_destroy 600, Type_index_destroy 500, Dwarf_index_destroy 400,
         Free_file_mappings [], Free_file_segments 200, Memory_reader_destroy 300,
         Elf_end None, Close_fd 3]\<rparr>"
  by (simp add: bootstrap_eval zeroed_program_mappings)

lemma process_bootstrap:
  "drgn_program_init_core_dump process_core_file (alloc_failing {}) modules_ok 900 zeroed_program =
     \<lparr>cr_err = Some DRGN_ERROR_MISSING_DEBUG,
      cr_prog = zeroed_program\<lparr>prog_mappings := [bin_x_mapping]\<rparr>,
      cr_hook = None,
      cr_released =
        [Elf_end (Some 100), Dwarf_index_destroy 400,
         Free_file_mappings [], Free_file_segments 200, Memory_reader_destroy 300,
         Elf_end None, Close_fd 3]\<rparr>"
  by (simp add: bootstrap_eval)

lemma bare_bootstrap:
  "drgn_program_init_core_dump bare_core_file (alloc_failing {}) modules_ok 900 zeroed_program =
     \<lparr>cr_err = Some DRGN_ERROR_INVALID_ARGUMENT,
      cr_prog = zeroed_program\<lparr>prog_mappings := []\<rparr>,
      cr_hook = None,
      cr_released =
        [Elf_end (Some 100),
         Free_file_mappings [], Free_file_segments 200, Memory_reader_destroy 300,
         Elf_end None, Close_fd 3]\<rparr>"
  by (simp add: bootstrap_eval)

lemma cleanups_run_append: "cleanups_run (xs @ ys) = cleanups_run xs @ cleanups_run ys"
  by (induction xs rule: cleanups_run.induct) simp_all

lemma cleanups_run_map: "cleanups_run (map (\<lambda>(cb, arg). Run_cleanup cb arg) cs) = cs"
  by (induction cs) auto

lemma cleanups_run_deinit: "cleanups_run (drgn_program_deinit prog) = prog_cleanup prog"
  by (simp add: drgn_program_deinit_def cleanups_run_map)

text \<open>No exit path of a failing run calls a callback through the cleanup stack: the
  entries registered so far are removed by \<^verbatim>\<open>drgn_program_remove_cleanup\<close> before
  \<^verbatim>\<open>drgn_program_deinit\<close> walks the stack.\<close>

lemma cleanups_run_out_mappings:
  "cleanups_run (out_mappings ms file_segments reader elf fd) = []"
  by (simp add: out_mappings_def out_reader_def out_elf_def out_fd_def)

lemma cleanups_run_out_dtcache:
  "cleanups_run (out_dtcache dtcache tindex dindex rest) = cleanups_run rest"
  "cleanups_run (out_tindex tindex dindex rest) = cleanups_run rest"
  "cleanups_run (out_dindex dindex rest) = cleanups_run rest"
  by (simp_all add: out_dtcache_def out_tindex_def out_dindex_def)

lemma publish_failure_runs_no_cleanup:
  assumes "publish alloc prog_ptr prog fd file_segments reader dindex tindex dtcache dsindex
             mappings vmcoreinfo = (Some err, prog', hook, rel)"
  shows "cleanups_run rel = [] \<and> prog_cleanup prog' = []"
  using assms
  by (auto simp: publish_def drgn_program_add_cleanup_def drgn_program_init_def
        out_program_def out_cleanup_fd_def out_cleanup_file_segments_def out_cleanup_dindex_def
        out_cleanup_dtcache_def drgn_program_remove_cleanup_def cleanups_run_deinit
      split: if_splits option.splits)

lemma core_dump_debug_failure_runs_no_cleanup:
  assumes "cleanups_run pre = []"
    and "cr_err (core_dump_debug alloc mods prog_ptr prog fd reader file_segments mappings
                   vmcoreinfo pre) \<noteq> None"
  shows "cleanups_run (cr_released (core_dump_debug alloc mods prog_ptr prog fd reader
                                      file_segments mappings vmcoreinfo pre)) = []"
  using assms
  by (auto simp: core_dump_debug_def core_fail_def cleanups_run_append
        cleanups_run_out_mappings cleanups_run_out_dtcache
      split: sum.splits option.splits prod.splits
      dest: publish_failure_runs_no_cleanup)

lemma kernel_metadata_runs_no_cleanup:
  "kernel_metadata mods hp is_proc_kcore st ms = (err, ms', vi, rel) \<Longrightarrow> cleanups_run rel = []"
  by (auto simp: kernel_metadata_def split: if_splits sum.splits)

lemma core_dump_load_failure_runs_no_cleanup:
  assumes "cr_err (core_dump_load file alloc mods prog_ptr prog fd elf is_64_bit n hp reader
                     file_segments) \<noteq> None"
  shows "cleanups_run (cr_released (core_dump_load file alloc mods prog_ptr prog fd elf
                                      is_64_bit n hp reader file_segments)) = []"
  using assms
  by (auto simp: core_dump_load_def core_fail_def cleanups_run_append
        cleanups_run_out_mappings
      split: sum.splits option.splits prod.splits
      dest: kernel_metadata_runs_no_cleanup
      intro!: core_dump_debug_failure_runs_no_cleanup)

lemma init_core_dump_failure_runs_no_cleanup:
  assumes "cr_err (drgn_program_init_core_dump file alloc mods prog_ptr prog) \<noteq> None"
  shows "cleanups_run (cr_released (drgn_program_init_core_dump file alloc mods prog_ptr prog))
           = []"
  using assms
  by (auto simp: drgn_program_init_core_dump_def core_fail_def out_fd_def out_elf_def
        out_reader_def
      split: sum.splits option.splits prod.splits if_splits
      intro!: core_dump_load_failure_runs_no_cleanup)

lemma register_cleanups_stack:
  "prog_cleanup (register_cleanups prog cleanups) = rev cleanups @ prog_cleanup prog"
  by (induction prog cleanups rule: register_cleanups.induct)
     (simp_all add: drgn_program_add_cleanup_def)


text \<open>
  The run from line 1319 on when a registration fails. The first registration whose
  entry cannot be allocated is the \<open>k\<close>-th: the entries of the steps before \<open>k\<close> are on
  the stack, the exit labels remove them, and \<^verbatim>\<open>drgn_program_deinit\<close> releases the
  symbol index, the type index and the memory reader of a program whose stack is
  empty. The labels \<^verbatim>\<open>out_dtcache\<close> to \<^verbatim>\<open>out_fd\<close> then release every resource.
\<close>

lemma publish_registration_failure:
  assumes "1 \<le> k" and "k \<le> (if vmcoreinfo = None then 5 else 4)"
    and "\<forall>j. 1 \<le> j \<and> j < k \<longrightarrow> ca_add_cleanup_ok alloc j"
    and "\<not> ca_add_cleanup_ok alloc k"
  shows "publish alloc prog_ptr prog fd file_segments reader dindex tindex dtcache dsindex
           mappings vmcoreinfo =
         (Some DRGN_ERROR_NO_MEMORY,
          (drgn_program_init prog reader tindex dsindex)
            \<lparr>prog_mappings := (if k = 5 then mappings else prog_mappings prog)\<rparr>,
          None,
          [Symbol_index_destroy dsindex, Type_index_destroy tindex,
           Memory_reader_destroy reader])"
proof -
  from assms(1,2) consider "k = 1" | "k = 2" | "k = 3" | "k = 4" | "k = 5" "vmcoreinfo = None"
    by (cases "vmcoreinfo = None") (simp_all, arith+)
  then show ?thesis
  proof cases
    case 1
    with assms(4) show ?thesis
      by (simp add: publish_def unwind_eval)
  next
    case 2
    with assms(3) [rule_format, of 1] assms(4) show ?thesis
      by (simp add: publish_def unwind_eval)
  next
    case 3
    with assms(3) [rule_format, of 1] assms(3) [rule_format, of 2] assms(4) show ?thesis
      by (simp add: publish_def unwind_eval)
  next
    case 4
    with assms(3) [rule_format, of 1] assms(3) [rule_format, of 2]
      assms(3) [rule_format, of 3] assms(4) show ?thesis
      by (simp add: publish_def unwind_eval)
  next
    case 5
    with assms(3) [rule_format, of 1] assms(3) [rule_format, of 2]
      assms(3) [rule_format, of 3] assms(3) [rule_format, of 4] assms(4) show ?thesis
      by (simp add: publish_def unwind_eval)
  qed
qed

lemma core_dump_debug_registration_failure:
  assumes "cm_dindex_create mods = Inr dindex"
    and "(case vmcoreinfo of
            Some vi \<Rightarrow> (cm_open_kernel_files mods (osrelease vi), mappings)
          | None \<Rightarrow> open_userspace_files (cm_dwarf_index_open mods) mappings) = (None, ms)"
    and "cm_dindex_update mods = None" and "cm_tindex_create mods = Inr tindex"
    and "cm_dtcache_create mods = Inr dtcache" and "cm_add_finder mods = None"
    and "cm_dsindex_create mods = Inr dsindex"
    and "1 \<le> k" and "k \<le> (if vmcoreinfo = None then 5 else 4)"
    and "\<forall>j. 1 \<le> j \<and> j < k \<longrightarrow> ca_add_cleanup_ok alloc j"
    and "\<not> ca_add_cleanup_ok alloc k"
  shows "core_dump_debug alloc mods prog_ptr prog fd reader file_segments mappings vmcoreinfo pre =
         \<lparr>cr_err = Some DRGN_ERROR_NO_MEMORY,
          cr_prog = (drgn_program_init prog reader tindex dsindex)
                      \<lparr>prog_mappings := (if k = 5 then ms else prog_mappings prog)\<rparr>,
          cr_hook = None,
          cr_released = pre @
            [Symbol_index_destroy dsindex, Type_index_destroy tindex,
             Memory_reader_destroy reader,
             Dwarf_type_cache_destroy dtcache, Type_index_destroy tindex,
             Dwarf_index_destroy dindex, Free_file_mappings ms,
             Free_file_segments file_segments, Memory_reader_destroy reader,
             Elf_end None, Close_fd fd]\<rparr>"
  using assms(1-7)
    publish_registration_failure [OF assms(8-11), of prog_ptr prog fd file_segments reader
      dindex tindex dtcache dsindex ms]
  by (simp add: core_dump_debug_def out_dtcache_def out_tindex_def out_dindex_def
        out_mappings_def out_reader_def out_elf_def out_fd_def)

text \<open>
  Only \<^verbatim>\<open>drgn_program_deinit\<close> destroys a symbol index. A failing run whose releases
  hold that event is a run that failed at a registration: what the callbacks of the
  steps 1 to 4 guard is then released once each, the type cache first and the
  descriptor last.
\<close>

lemma guarded_release_append:
  "filter guarded_release (xs @ ys) = filter guarded_release xs @ filter guarded_release ys"
  by simp

lemma guarded_release_deinit: "filter guarded_release (drgn_program_deinit prog) = []"
  by (auto simp: drgn_program_deinit_def filter_empty_conv)

lemma symbol_index_destroy_deinit_only:
  "Symbol_index_destroy s \<notin> set (out_mappings ms file_segments reader elf fd)"
  "Symbol_index_destroy s \<in> set (out_dindex dindex rest) \<longleftrightarrow> Symbol_index_destroy s \<in> set rest"
  "Symbol_index_destroy s \<in> set (out_tindex tindex dindex rest)
     \<longleftrightarrow> Symbol_index_destroy s \<in> set rest"
  "Symbol_index_destroy s \<in> set (out_dtcache dtcache tindex dindex rest)
     \<longleftrightarrow> Symbol_index_destroy s \<in> set rest"
  "Symbol_index_destroy s \<notin> set (out_reader reader elf fd)"
  "Symbol_index_destroy s \<notin> set (out_elf elf fd)"
  "Symbol_index_destroy s \<notin> set (out_fd fd)"
  by (simp_all add: out_mappings_def out_reader_def out_elf_def out_fd_def out_dindex_def
        out_tindex_def out_dtcache_def)

lemma publish_failure_releases:
  assumes "publish alloc prog_ptr prog fd file_segments reader dindex tindex dtcache dsindex
             mappings vmcoreinfo = (Some err, prog', hook, rel)"
  shows "rel = drgn_program_deinit prog'"
  using assms
  by (auto simp: publish_def out_program_def out_cleanup_fd_def
        out_cleanup_file_segments_def out_cleanup_dindex_def out_cleanup_dtcache_def
      split: prod.splits option.splits)

lemma core_dump_debug_shape:
  assumes "core_dump_debug alloc mods prog_ptr prog fd reader file_segments mappings
             vmcoreinfo pre = r"
  shows "cr_err r = None \<or>
         (\<exists>rest. cr_released r = pre @ rest \<and> (\<forall>s. Symbol_index_destroy s \<notin> set rest)) \<or>
         (\<exists>prog' tindex ms dindex dtcache.
            cm_dindex_create mods = Inr dindex \<and> cm_dtcache_create mods = Inr dtcache \<and>
            cr_released r =
              pre @ drgn_program_deinit prog' @
              out_dtcache dtcache tindex dindex (out_mappings ms file_segments reader None fd))"
proof (cases "cm_dindex_create mods")
  case (Inl err)
  with assms show ?thesis
    by (auto simp: core_dump_debug_def core_fail_def symbol_index_destroy_deinit_only)
next
  case dindex: (Inr dindex)
  obtain e1 ms where files: "(case vmcoreinfo of
            Some vi \<Rightarrow> (cm_open_kernel_files mods (osrelease vi), mappings)
          | None \<Rightarrow> open_userspace_files (cm_dwarf_index_open mods) mappings) = (e1, ms)"
    by (cases "(case vmcoreinfo of
            Some vi \<Rightarrow> (cm_open_kernel_files mods (osrelease vi), mappings)
          | None \<Rightarrow> open_userspace_files (cm_dwarf_index_open mods) mappings)") auto
  have early: "\<And>err rest. r = core_fail err prog (pre @ rest) \<Longrightarrow>
                 \<forall>s. Symbol_index_destroy s \<notin> set rest \<Longrightarrow> ?thesis"
    by (auto simp: core_fail_def)
  show ?thesis
  proof (cases e1)
    case (Some err)
    with assms dindex files
    have "r = core_fail err prog
                (pre @ out_dindex dindex (out_mappings ms file_segments reader None fd))"
      by (simp add: core_dump_debug_def)
    then show ?thesis by (rule early) (simp add: symbol_index_destroy_deinit_only)
  next
    case None
    note files = files [unfolded None]
    show ?thesis
    proof (cases "cm_dindex_update mods")
      case (Some err)
      with assms dindex files
      have "r = core_fail err prog
                  (pre @ out_dindex dindex (out_mappings ms file_segments reader None fd))"
        by (simp add: core_dump_debug_def)
      then show ?thesis by (rule early) (simp add: symbol_index_destroy_deinit_only)
    next
      case upd: None
      show ?thesis
      proof (cases "cm_tindex_create mods")
        case (Inl err)
        with assms dindex files upd
        have "r = core_fail err prog
                    (pre @ out_dindex dindex (out_mappings ms file_segments reader None fd))"
          by (simp add: core_dump_debug_def)
        then show ?thesis by (rule early) (simp add: symbol_index_destroy_deinit_only)
      next
        case tindex: (Inr tindex)
        show ?thesis
        proof (cases "cm_dtcache_create mods")
          case (Inl err)
          with assms dindex files upd tindex
          have "r = core_fail err prog
                      (pre @ out_tindex tindex dindex
                               (out_mappings ms file_segments reader None fd))"
            by (simp add: core_dump_debug_def)
          then show ?thesis by (rule early) (simp add: symbol_index_destroy_deinit_only)
        next
          case dtcache: (Inr dtcache)
          show ?thesis
          proof (cases "cm_add_finder mods")
            case (Some err)
            with assms dindex files upd tindex dtcache
            have "r = core_fail err prog
                        (pre @ out_dtcache dtcache tindex dindex
                                 (out_mappings ms file_segments reader None fd))"
              by (simp add: core_dump_debug_def)
            then show ?thesis by (rule early) (simp add: symbol_index_destroy_deinit_only)
          next
            case finder: None
            show ?thesis
            proof (cases "cm_dsindex_create mods")
              case (Inl err)
              with assms dindex files upd tindex dtcache finder
              have "r = core_fail err prog
                          (pre @ out_dtcache dtcache tindex dindex
                                   (out_mappings ms file_segments reader None fd))"
                by (simp add: core_dump_debug_def)
              then show ?thesis by (rule early) (simp add: symbol_index_destroy_deinit_only)
            next
              case dsindex: (Inr dsindex)
              obtain e2 prog' hook rel where pub:
                "publish alloc prog_ptr prog fd file_segments reader dindex tindex dtcache
                   dsindex ms vmcoreinfo = (e2, prog', hook, rel)"
                by (cases "publish alloc prog_ptr prog fd file_segments reader dindex tindex
                             dtcache dsindex ms vmcoreinfo") auto
              show ?thesis
              proof (cases e2)
                case None
                with assms dindex files upd tindex dtcache finder dsindex pub
                have "cr_err r = None"
                  by (auto simp: core_dump_debug_def)
                then show ?thesis by simp
              next
                case (Some err)
                with pub have "rel = drgn_program_deinit prog'"
                  by (simp add: publish_failure_releases)
                with Some assms dindex files upd tindex dtcache finder dsindex pub
                have "cr_released r =
                        pre @ drgn_program_deinit prog' @
                        out_dtcache dtcache tindex dindex
                          (out_mappings ms file_segments reader None fd)"
                  by (auto simp: core_dump_debug_def)
                with dindex dtcache show ?thesis by blast
              qed
            qed
          qed
        qed
      qed
    qed
  qed
qed

lemma core_dump_debug_deinit_releases:
  assumes "Symbol_index_destroy s \<notin> set pre"
    and "cr_err (core_dump_debug alloc mods prog_ptr prog fd reader file_segments mappings
                   vmcoreinfo pre) \<noteq> None"
    and "Symbol_index_destroy s
           \<in> set (cr_released (core_dump_debug alloc mods prog_ptr prog fd reader
                                  file_segments mappings vmcoreinfo pre))"
    and "cm_dindex_create mods = Inr dindex" and "cm_dtcache_create mods = Inr dtcache"
  shows "filter guarded_release
           (cr_released (core_dump_debug alloc mods prog_ptr prog fd reader file_segments
                           mappings vmcoreinfo pre)) =
         filter guarded_release pre @
         [Dwarf_type_cache_destroy dtcache, Dwarf_index_destroy dindex,
          Free_file_segments file_segments, Close_fd fd]"
proof -
  let ?r = "core_dump_debug alloc mods prog_ptr prog fd reader file_segments mappings
              vmcoreinfo pre"
  from core_dump_debug_shape [OF refl, of alloc mods prog_ptr prog fd reader file_segments
         mappings vmcoreinfo pre] assms(1-3)
  obtain prog' tindex ms dindex' dtcache' where
    "cm_dindex_create mods = Inr dindex'" "cm_dtcache_create mods = Inr dtcache'"
    "cr_released ?r =
       pre @ drgn_program_deinit prog' @
       out_dtcache dtcache' tindex dindex' (out_mappings ms file_segments reader None fd)"
    by auto
  with assms(4,5) show ?thesis
    by (simp add: guarded_release_deinit out_dtcache_def out_tindex_def out_dindex_def
          out_mappings_def out_reader_def out_elf_def out_fd_def)
qed

lemma kernel_metadata_releases:
  "kernel_metadata mods hp is_proc_kcore st ms = (err, ms', vi, rel) \<Longrightarrow>
     filter guarded_release rel = [] \<and> Symbol_index_destroy s \<notin> set rel"
  by (auto simp: kernel_metadata_def split: if_splits sum.splits)

lemma core_dump_load_deinit_releases:
  assumes "cr_err (core_dump_load file alloc mods prog_ptr prog fd elf is_64_bit n hp reader
                     file_segments) \<noteq> None"
    and "Symbol_index_destroy s
           \<in> set (cr_released (core_dump_load file alloc mods prog_ptr prog fd elf is_64_bit
                                  n hp reader file_segments))"
    and "cm_dindex_create mods = Inr dindex" and "cm_dtcache_create mods = Inr dtcache"
  shows "filter guarded_release
           (cr_released (core_dump_load file alloc mods prog_ptr prog fd elf is_64_bit n hp
                           reader file_segments)) =
         [Dwarf_type_cache_destroy dtcache, Dwarf_index_destroy dindex,
          Free_file_segments file_segments, Close_fd fd]"
proof -
  obtain e st where sp: "second_pass file alloc mods is_64_bit hp n 0 (cf_phdrs file)
                           (pass2_init prog) = (e, st)" by (cases "second_pass file alloc mods is_64_bit hp n 0 (cf_phdrs file)
                           (pass2_init prog)") auto
  show ?thesis
  proof (cases e)
    case (Some err)
    with sp assms(2) show ?thesis
      by (simp add: core_dump_load_def core_fail_def symbol_index_destroy_deinit_only)
  next
    case None
    show ?thesis
    proof (cases "detect_proc_kcore file st")
      case (Inl err)
      with sp None assms(2) show ?thesis
        by (simp add: core_dump_load_def core_fail_def symbol_index_destroy_deinit_only)
    next
      case (Inr is_proc_kcore)
      obtain e2 ms vi rel where km:
        "kernel_metadata mods hp is_proc_kcore st [] = (e2, ms, vi, rel)"
        by (cases "kernel_metadata mods hp is_proc_kcore st []") auto
      from kernel_metadata_releases [OF km, of s] have rel:
        "filter guarded_release rel = []" "Symbol_index_destroy s \<notin> set rel" by simp_all
      show ?thesis
      proof (cases e2)
        case (Some err)
        with sp None Inr km rel assms(2) show ?thesis
          by (simp add: core_dump_load_def core_fail_def symbol_index_destroy_deinit_only)
      next
        case none2: None
        let ?pre = "Elf_end (Some elf) # rel"
        let ?r = "core_dump_debug alloc mods prog_ptr
                    (prog\<lparr>prog_mappings := p2_prog_mappings st\<rparr>) fd reader file_segments
                    ms vi ?pre"
        have eq: "core_dump_load file alloc mods prog_ptr prog fd elf is_64_bit n hp reader
                     file_segments = ?r"
          using sp None Inr km none2 by (simp add: core_dump_load_def)
        have pre: "Symbol_index_destroy s \<notin> set ?pre" using rel by simp
        from core_dump_debug_deinit_releases [OF pre _ _ assms(3,4), of alloc prog_ptr
               "prog\<lparr>prog_mappings := p2_prog_mappings st\<rparr>" fd reader file_segments ms vi]
          assms(1,2) eq rel
        show ?thesis by simp
      qed
    qed
  qed
qed

lemma init_core_dump_deinit_releases:
  assumes "cr_err (drgn_program_init_core_dump file alloc mods prog_ptr prog) \<noteq> None"
    and "Symbol_index_destroy s
           \<in> set (cr_released (drgn_program_init_core_dump file alloc mods prog_ptr prog))"
    and "cf_open file = Inr fd" and "ca_file_segments alloc = Some file_segments"
    and "cm_dindex_create mods = Inr dindex" and "cm_dtcache_create mods = Inr dtcache"
  shows "filter guarded_release
           (cr_released (drgn_program_init_core_dump file alloc mods prog_ptr prog)) =
         [Dwarf_type_cache_destroy dtcache, Dwarf_index_destroy dindex,
          Free_file_segments file_segments, Close_fd fd]"
  using assms
  by (auto simp: drgn_program_init_core_dump_def core_fail_def symbol_index_destroy_deinit_only
      split: sum.splits option.splits prod.splits if_splits
      intro!: core_dump_load_deinit_releases)


text \<open>
  Claim C4 says that when a bootstrap fails at step \<open>k\<close>, the callbacks registered at the
  steps before \<open>k\<close> run exactly once, in reverse order, and none registered at or after
  \<open>k\<close> runs. In the kernel dump whose third registration (\<^verbatim>\<open>cleanup_dwarf_index\<close>) fails,
  the two registered callbacks \<^verbatim>\<open>cleanup_fd\<close> and \<^verbatim>\<open>free\<close> are not run: they are
  removed from the stack, and the exit path releases every resource by direct calls,
  the DWARF index of the failing step among them.
\<close>

theorem bootstrap_cleanup_counterexample:
  "cr_err (drgn_program_init_core_dump kernel_core_file (alloc_failing {3}) modules_ok 900
             zeroed_program) = Some DRGN_ERROR_NO_MEMORY \<and>
   cleanups_run (cr_released (drgn_program_init_core_dump kernel_core_file (alloc_failing {3})
                                modules_ok 900 zeroed_program)) = [] \<and>
   cleanups_run (cr_released (drgn_program_init_core_dump kernel_core_file (alloc_failing {3})
                                modules_ok 900 zeroed_program))
     \<noteq> [(free_cb, 200), (cleanup_fd, 3)] \<and>
   Dwarf_index_destroy 400
     \<in> set (cr_released (drgn_program_init_core_dump kernel_core_file (alloc_failing {3})
                            modules_ok 900 zeroed_program))"
  by (simp add: kernel_bootstrap_fail3)

text \<open>
  Claim C4, amended. No failing run of the bootstrap calls a cleanup callback through
  the stack (first part). A failing run that deinitialises the partially built program
  releases what the callbacks of the registration steps 1 to 4 guard exactly once each
  and in the reverse of the order of the registrations, by the direct calls of the exit
  path: the type cache, the DWARF index, the file segments, the descriptor, which are
  the releases \<^verbatim>\<open>cleanup_dwarf_type_cache\<close>, \<^verbatim>\<open>cleanup_dwarf_index\<close>, \<^verbatim>\<open>free\<close> and
  \<^verbatim>\<open>cleanup_fd\<close> would perform (second part). When the first registration that fails is
  the \<open>k\<close>-th (\<open>k\<close> is at most 4 for a kernel dump and at most 5 otherwise), the entries
  registered at the steps before \<open>k\<close> have been removed uncalled, the program returned
  has an empty stack, and the run releases, after what it had released before, the
  symbol index, the type index and the memory reader in \<^verbatim>\<open>drgn_program_deinit\<close>, then
  the type cache, the type index, the DWARF index, the mappings, the file segments, the
  memory reader, the ELF handle and the descriptor, whatever \<open>k\<close> is: the resources of the
  steps at or after \<open>k\<close> are released as those of the steps before (third part).
  Destroying a session runs the cleanup stack in LIFO order: the callbacks registered
  are each run once, in the reverse of the order of their registration (fourth part).
\<close>

theorem bootstrap_cleanup_order:
  "(cr_err (drgn_program_init_core_dump file alloc mods prog_ptr prog) \<noteq> None \<longrightarrow>
      cleanups_run (cr_released (drgn_program_init_core_dump file alloc mods prog_ptr prog))
        = []) \<and>
   (cr_err (drgn_program_init_core_dump file alloc mods prog_ptr prog) \<noteq> None \<and>
    Symbol_index_destroy dsindex
      \<in> set (cr_released (drgn_program_init_core_dump file alloc mods prog_ptr prog)) \<and>
    cf_open file = Inr fd \<and> ca_file_segments alloc = Some file_segments \<and>
    cm_dindex_create mods = Inr dindex \<and> cm_dtcache_create mods = Inr dtcache \<longrightarrow>
      filter guarded_release
        (cr_released (drgn_program_init_core_dump file alloc mods prog_ptr prog)) =
      map (cleanup_release (cr_prog (drgn_program_init_core_dump file alloc mods prog_ptr prog)))
        (rev [(cleanup_fd, fd), (free_cb, file_segments), (cleanup_dwarf_index, dindex),
              (cleanup_dwarf_type_cache, dtcache)])) \<and>
   (cm_dindex_create mods = Inr dindex \<and>
    (case vmcoreinfo of
       Some vi \<Rightarrow> (cm_open_kernel_files mods (osrelease vi), mappings)
     | None \<Rightarrow> open_userspace_files (cm_dwarf_index_open mods) mappings) = (None, ms) \<and>
    cm_dindex_update mods = None \<and> cm_tindex_create mods = Inr tindex \<and>
    cm_dtcache_create mods = Inr dtcache \<and> cm_add_finder mods = None \<and>
    cm_dsindex_create mods = Inr dsindex \<and>
    1 \<le> k \<and> k \<le> (if vmcoreinfo = None then 5 else 4) \<and>
    (\<forall>j. 1 \<le> j \<and> j < k \<longrightarrow> ca_add_cleanup_ok alloc j) \<and> \<not> ca_add_cleanup_ok alloc k \<longrightarrow>
      core_dump_debug alloc mods prog_ptr loaded fd reader file_segments mappings vmcoreinfo pre =
        \<lparr>cr_err = Some DRGN_ERROR_NO_MEMORY,
         cr_prog = (drgn_program_init loaded reader tindex dsindex)
                     \<lparr>prog_mappings := (if k = 5 then ms else prog_mappings loaded)\<rparr>,
         cr_hook = None,
         cr_released = pre @
           [Symbol_index_destroy dsindex, Type_index_destroy tindex,
            Memory_reader_destroy reader,
            Dwarf_type_cache_destroy dtcache, Type_index_destroy tindex,
            Dwarf_index_destroy dindex, Free_file_mappings ms,
            Free_file_segments file_segments, Memory_reader_destroy reader,
            Elf_end None, Close_fd fd]\<rparr>) \<and>
   cleanups_run (drgn_program_destroy
                   (register_cleanups (drgn_program_init prog reader tindex dsindex) cleanups))
     = rev cleanups"
proof (intro conjI impI)
  assume "cr_err (drgn_program_init_core_dump file alloc mods prog_ptr prog) \<noteq> None"
  then show "cleanups_run (cr_released (drgn_program_init_core_dump file alloc mods prog_ptr
                                          prog)) = []"
    by (rule init_core_dump_failure_runs_no_cleanup)
next
  assume a: "cr_err (drgn_program_init_core_dump file alloc mods prog_ptr prog) \<noteq> None \<and>
    Symbol_index_destroy dsindex
      \<in> set (cr_released (drgn_program_init_core_dump file alloc mods prog_ptr prog)) \<and>
    cf_open file = Inr fd \<and> ca_file_segments alloc = Some file_segments \<and>
    cm_dindex_create mods = Inr dindex \<and> cm_dtcache_create mods = Inr dtcache"
  then have "filter guarded_release
               (cr_released (drgn_program_init_core_dump file alloc mods prog_ptr prog)) =
             [Dwarf_type_cache_destroy dtcache, Dwarf_index_destroy dindex,
              Free_file_segments file_segments, Close_fd fd]"
    by (intro init_core_dump_deinit_releases [of _ _ _ _ _ dsindex]) simp_all
  then show "filter guarded_release
        (cr_released (drgn_program_init_core_dump file alloc mods prog_ptr prog)) =
      map (cleanup_release (cr_prog (drgn_program_init_core_dump file alloc mods prog_ptr prog)))
        (rev [(cleanup_fd, fd), (free_cb, file_segments), (cleanup_dwarf_index, dindex),
              (cleanup_dwarf_type_cache, dtcache)])"
    by simp
next
  assume "cm_dindex_create mods = Inr dindex \<and>
    (case vmcoreinfo of
       Some vi \<Rightarrow> (cm_open_kernel_files mods (osrelease vi), mappings)
     | None \<Rightarrow> open_userspace_files (cm_dwarf_index_open mods) mappings) = (None, ms) \<and>
    cm_dindex_update mods = None \<and> cm_tindex_create mods = Inr tindex \<and>
    cm_dtcache_create mods = Inr dtcache \<and> cm_add_finder mods = None \<and>
    cm_dsindex_create mods = Inr dsindex \<and>
    1 \<le> k \<and> k \<le> (if vmcoreinfo = None then 5 else 4) \<and>
    (\<forall>j. 1 \<le> j \<and> j < k \<longrightarrow> ca_add_cleanup_ok alloc j) \<and> \<not> ca_add_cleanup_ok alloc k"
  then show "core_dump_debug alloc mods prog_ptr loaded fd reader file_segments mappings
               vmcoreinfo pre =
        \<lparr>cr_err = Some DRGN_ERROR_NO_MEMORY,
         cr_prog = (drgn_program_init loaded reader tindex dsindex)
                     \<lparr>prog_mappings := (if k = 5 then ms else prog_mappings loaded)\<rparr>,
         cr_hook = None,
         cr_released = pre @
           [Symbol_index_destroy dsindex, Type_index_destroy tindex,
            Memory_reader_destroy reader,
            Dwarf_type_cache_destroy dtcache, Type_index_destroy tindex,
            Dwarf_index_destroy dindex, Free_file_mappings ms,
            Free_file_segments file_segments, Memory_reader_destroy reader,
            Elf_end None, Close_fd fd]\<rparr>"
    by (intro core_dump_debug_registration_failure) simp_all
next
  show "cleanups_run (drgn_program_destroy
                   (register_cleanups (drgn_program_init prog reader tindex dsindex) cleanups))
     = rev cleanups"
    by (simp add: drgn_program_destroy_def cleanups_run_deinit register_cleanups_stack
          drgn_program_init_def)
qed

theorem bootstrap_cleanup_order_witness:
  "cr_err (drgn_program_init_core_dump kernel_core_file (alloc_failing {3}) modules_ok 900
             zeroed_program) = Some DRGN_ERROR_NO_MEMORY \<and>
   Symbol_index_destroy 700
     \<in> set (cr_released (drgn_program_init_core_dump kernel_core_file (alloc_failing {3})
                            modules_ok 900 zeroed_program)) \<and>
   cf_open kernel_core_file = Inr 3 \<and> ca_file_segments (alloc_failing {3}) = Some 200 \<and>
   cm_dindex_create modules_ok = Inr 400 \<and> cm_dtcache_create modules_ok = Inr 600 \<and>
   cm_open_kernel_files modules_ok ''5.4.0-test'' = None \<and>
   cm_dindex_update modules_ok = None \<and> cm_tindex_create modules_ok = Inr 500 \<and>
   cm_add_finder modules_ok = None \<and> cm_dsindex_create modules_ok = Inr 700 \<and>
   ca_add_cleanup_ok (alloc_failing {3}) 1 \<and> ca_add_cleanup_ok (alloc_failing {3}) 2 \<and>
   ca_add_cleanup_ok (alloc_failing {3}) 3 = False \<and>
   cleanups_run (cr_released (drgn_program_init_core_dump kernel_core_file (alloc_failing {3})
                                modules_ok 900 zeroed_program)) = [] \<and>
   filter guarded_release
     (cr_released (drgn_program_init_core_dump kernel_core_file (alloc_failing {3})
                     modules_ok 900 zeroed_program)) =
     [Dwarf_type_cache_destroy 600, Dwarf_index_destroy 400, Free_file_segments 200,
      Close_fd 3] \<and>
   core_dump_debug (alloc_failing {3}) modules_ok 900
     (zeroed_program\<lparr>prog_mappings := [bin_x_mapping]\<rparr>) 3 300 200 []
     (Some \<lparr>osrelease = ''5.4.0-test'', kaslr_offset = 0x12000000\<rparr>)
     [Elf_end (Some 100), Free_file_mappings []] =
     \<lparr>cr_err = Some DRGN_ERROR_NO_MEMORY,
      cr_prog = (drgn_program_init (zeroed_program\<lparr>prog_mappings := [bin_x_mapping]\<rparr>)
                   300 500 700)\<lparr>prog_mappings := [bin_x_mapping]\<rparr>,
      cr_hook = None,
      cr_released =
        [Elf_end (Some 100), Free_file_mappings [],
         Symbol_index_destroy 700, Type_index_destroy 500, Memory_reader_destroy 300,
         Dwarf_type_cache_destroy 600, Type_index_destroy 500, Dwarf_index_destroy 400,
         Free_file_mappings [], Free_file_segments 200, Memory_reader_destroy 300,
         Elf_end None, Close_fd 3]\<rparr> \<and>
   cleanups_run (drgn_program_destroy
                   (register_cleanups (drgn_program_init zeroed_program 300 500 700)
                      [(cleanup_fd, 3), (free_cb, 200), (cleanup_dwarf_index, 400),
                       (cleanup_dwarf_type_cache, 600), (cleanup_file_mappings, 900)]))
     = [(cleanup_file_mappings, 900), (cleanup_dwarf_type_cache, 600),
        (cleanup_dwarf_index, 400), (free_cb, 200), (cleanup_fd, 3)]"
proof -
  let ?r = "drgn_program_init_core_dump kernel_core_file (alloc_failing {3}) modules_ok 900
              zeroed_program"
  have failed: "cr_err ?r = Some DRGN_ERROR_NO_MEMORY"
    and deinit: "Symbol_index_destroy 700 \<in> set (cr_released ?r)"
    by (simp_all add: kernel_bootstrap_fail3)
  have env: "cf_open kernel_core_file = Inr 3" "ca_file_segments (alloc_failing {3}) = Some 200"
    "cm_dindex_create modules_ok = Inr 400" "cm_dtcache_create modules_ok = Inr 600"
    "cm_open_kernel_files modules_ok ''5.4.0-test'' = None"
    "cm_dindex_update modules_ok = None" "cm_tindex_create modules_ok = Inr 500"
    "cm_add_finder modules_ok = None" "cm_dsindex_create modules_ok = Inr 700"
    by (simp_all add: kernel_core_file_def core_file_with_notes_fields alloc_failing_fields
          modules_ok_fields)
  have regs: "ca_add_cleanup_ok (alloc_failing {3}) 1" "ca_add_cleanup_ok (alloc_failing {3}) 2"
    "ca_add_cleanup_ok (alloc_failing {3}) 3 = False"
    "\<forall>j. 1 \<le> j \<and> j < 3 \<longrightarrow> ca_add_cleanup_ok (alloc_failing {3}) j"
    by (simp_all add: alloc_failing_fields)
  note order = bootstrap_cleanup_order
      [of kernel_core_file "alloc_failing {3}" modules_ok 900 zeroed_program 700 3 200 400 600
          "[]" "Some \<lparr>osrelease = ''5.4.0-test'', kaslr_offset = 0x12000000\<rparr>" "[]" 500 3
          "zeroed_program\<lparr>prog_mappings := [bin_x_mapping]\<rparr>" 300
          "[Elf_end (Some 100), Free_file_mappings []]"
          "[(cleanup_fd, 3), (free_cb, 200), (cleanup_dwarf_index, 400),
            (cleanup_dwarf_type_cache, 600), (cleanup_file_mappings, 900)]"]
  from order failed have c1: "cleanups_run (cr_released ?r) = []" by simp
  from order failed deinit env have c2: "filter guarded_release (cr_released ?r) =
     [Dwarf_type_cache_destroy 600, Dwarf_index_destroy 400, Free_file_segments 200,
      Close_fd 3]" by simp
  from order env regs have c3: "core_dump_debug (alloc_failing {3}) modules_ok 900
     (zeroed_program\<lparr>prog_mappings := [bin_x_mapping]\<rparr>) 3 300 200 []
     (Some \<lparr>osrelease = ''5.4.0-test'', kaslr_offset = 0x12000000\<rparr>)
     [Elf_end (Some 100), Free_file_mappings []] =
     \<lparr>cr_err = Some DRGN_ERROR_NO_MEMORY,
      cr_prog = (drgn_program_init (zeroed_program\<lparr>prog_mappings := [bin_x_mapping]\<rparr>)
                   300 500 700)\<lparr>prog_mappings := [bin_x_mapping]\<rparr>,
      cr_hook = None,
      cr_released =
        [Elf_end (Some 100), Free_file_mappings [],
         Symbol_index_destroy 700, Type_index_destroy 500, Memory_reader_destroy 300,
         Dwarf_type_cache_destroy 600, Type_index_destroy 500, Dwarf_index_destroy 400,
         Free_file_mappings [], Free_file_segments 200, Memory_reader_destroy 300,
         Elf_end None, Close_fd 3]\<rparr>" by simp
  from order have c4: "cleanups_run (drgn_program_destroy
                   (register_cleanups (drgn_program_init zeroed_program 300 500 700)
                      [(cleanup_fd, 3), (free_cb, 200), (cleanup_dwarf_index, 400),
                       (cleanup_dwarf_type_cache, 600), (cleanup_file_mappings, 900)]))
     = [(cleanup_file_mappings, 900), (cleanup_dwarf_type_cache, 600),
        (cleanup_dwarf_index, 400), (free_cb, 200), (cleanup_fd, 3)]" by simp
  from failed deinit env regs(1-3) c1 c2 c3 c4 show ?thesis by simp
qed















text \<open>
  Claim C10, evaluated where the code breaks it. \<^verbatim>\<open>parse_nt_file\<close> is given the table of
  \<^verbatim>\<open>*prog\<close> (line 1238), while the rest of the function works on the local
  \<^verbatim>\<open>mappings\<close>, which stays empty. The kernel dump with an \<^verbatim>\<open>NT_FILE\<close> and a
  \<^verbatim>\<open>VMCOREINFO\<close> note bootstraps with the kernel flag set, but its program still holds
  the mapping parsed from the \<^verbatim>\<open>NT_FILE\<close> note, which no release of the run frees. The
  dump of a process with an \<^verbatim>\<open>NT_FILE\<close> note, every file of which has debugging
  information, fails with \<open>MISSING_DEBUG\<close>, since \<^verbatim>\<open>open_userspace_files\<close> is given
  the empty local table; no program is stored.
\<close>

theorem core_dump_mappings_misplaced:
  "cr_err (drgn_program_init_core_dump kernel_core_file (alloc_failing {}) modules_ok 900
             zeroed_program) = None \<and>
   drgn_program_flags (cr_prog (drgn_program_init_core_dump kernel_core_file (alloc_failing {})
                                  modules_ok 900 zeroed_program))
     AND DRGN_PROGRAM_IS_LINUX_KERNEL = DRGN_PROGRAM_IS_LINUX_KERNEL \<and>
   prog_mappings (cr_prog (drgn_program_init_core_dump kernel_core_file (alloc_failing {})
                             modules_ok 900 zeroed_program)) = [bin_x_mapping] \<and>
   Free_file_mappings [bin_x_mapping]
     \<notin> set (cr_released (drgn_program_init_core_dump kernel_core_file (alloc_failing {})
                            modules_ok 900 zeroed_program)) \<and>
   cr_err (drgn_program_init_core_dump process_core_file (alloc_failing {}) modules_ok 900
             zeroed_program) = Some DRGN_ERROR_MISSING_DEBUG \<and>
   fst (snd (drgn_program_from_core_dump True process_core_file (alloc_failing {}) modules_ok
               900 zeroed_program)) = None"
  by (simp add: kernel_bootstrap process_bootstrap drgn_program_from_core_dump_def
        drgn_program_flags_def)

text \<open>For the same reason no run of \<^verbatim>\<open>drgn_program_init_core_dump\<close> installs the
  user-space relocation hook.\<close>

lemma core_dump_debug_never_userspace:
  "cr_hook (core_dump_debug alloc mods prog_ptr prog fd reader file_segments [] vmcoreinfo pre)
     \<noteq> Some Userspace_relocation_hook"
  by (auto simp: core_dump_debug_def core_fail_def open_userspace_files_def publish_def
        drgn_program_add_cleanup_def out_program_def out_cleanup_fd_def
        out_cleanup_file_segments_def out_cleanup_dindex_def out_cleanup_dtcache_def
      split: sum.splits option.splits prod.splits if_splits)

lemma kernel_metadata_local_mappings:
  "kernel_metadata mods hp is_proc_kcore st [] = (err, ms, vi, rel) \<Longrightarrow> ms = []"
  by (auto simp: kernel_metadata_def split: if_splits sum.splits)

lemma init_core_dump_never_userspace:
  "cr_hook (drgn_program_init_core_dump file alloc mods prog_ptr prog)
     \<noteq> Some Userspace_relocation_hook"
  by (auto simp: drgn_program_init_core_dump_def core_dump_load_def core_fail_def
        core_dump_debug_never_userspace
      split: sum.splits option.splits prod.splits if_splits
      dest!: kernel_metadata_local_mappings)

end
